theory Spec2Isabelle
  imports Complex_Main
begin

section \<open>Strings\<close>

text \<open>
  A JavaScript string is a sequence of code units and \<open>s.length\<close> counts them. The model
  takes \<^typ>\<open>string\<close>, one \<^typ>\<open>char\<close> per code unit, which covers the ASCII range that
  every registry key, format token and message template of the program lives in.
  \<open>toLowerCase\<close> and \<open>toUpperCase\<close> map the letters A-Z and a-z and leave every other
  code unit alone.
\<close>

definition toLowerCase_char :: "char \<Rightarrow> char" where
  "toLowerCase_char c =
     (case map_of (zip ''ABCDEFGHIJKLMNOPQRSTUVWXYZ'' ''abcdefghijklmnopqrstuvwxyz'') c of
        Some l \<Rightarrow> l
      | None \<Rightarrow> c)"

definition toLowerCase :: "string \<Rightarrow> string" where
  "toLowerCase s = map toLowerCase_char s"

definition toUpperCase_char :: "char \<Rightarrow> char" where
  "toUpperCase_char c =
     (case map_of (zip ''abcdefghijklmnopqrstuvwxyz'' ''ABCDEFGHIJKLMNOPQRSTUVWXYZ'') c of
        Some u \<Rightarrow> u
      | None \<Rightarrow> c)"

definition toUpperCase :: "string \<Rightarrow> string" where
  "toUpperCase s = map toUpperCase_char s"

text \<open>\<open>tag.replace(/^#/, '')\<close>: the pattern is anchored, so at most the first code unit goes.\<close>

fun strip_leading_hash :: "string \<Rightarrow> string" where
  "strip_leading_hash [] = []"
| "strip_leading_hash (c # cs) = (if c = CHR ''#'' then cs else c # cs)"

text \<open>\<open>s.includes(' ')\<close>\<close>

definition includes_space :: "string \<Rightarrow> bool" where
  "includes_space s = (CHR '' '' \<in> set s)"

text \<open>\<open>xs.join(', ')\<close>\<close>

fun join_comma :: "string list \<Rightarrow> string" where
  "join_comma [] = []"
| "join_comma [x] = x"
| "join_comma (x # y # ys) = x @ '', '' @ join_comma (y # ys)"

text \<open>
  The decimal digits of a count, as a template literal prints a non-negative integer
  (string and array lengths, the integer limits of the registry).
\<close>

definition digit_char :: "nat \<Rightarrow> char" where
  "digit_char d = ''0123456789'' ! d"

function show_nat :: "nat \<Rightarrow> string" where
  "show_nat n = (if n < 10 then [digit_char n] else show_nat (n div 10) @ [digit_char (n mod 10)])"
  by pat_completeness auto
termination
  by (relation "measure id") auto

declare show_nat.simps [simp del]


section \<open>Numbers\<close>

text \<open>
  A JavaScript \<open>number\<close> is an IEEE 754 binary64 value. \<open>Finite q\<close> is the finite double
  whose exact value is the rational \<open>q\<close> (\<open>Finite 0\<close> is \<open>+0\<close>), \<open>NegZero\<close> is \<open>-0\<close>.
  Comparisons are exact; division, subtraction and multiplication compute the exact
  rational result and round it to the nearest double, ties to even (\<open>fl\<close>).
\<close>

datatype number = NaN | PosInf | NegInf | NegZero | Finite rat

definition number_of_nat :: "nat \<Rightarrow> number" where
  "number_of_nat n = Finite (of_nat n)"

fun is_NaN :: "number \<Rightarrow> bool" where
  "is_NaN NaN = True"
| "is_NaN _ = False"

fun is_inf :: "number \<Rightarrow> bool" where
  "is_inf PosInf = True"
| "is_inf NegInf = True"
| "is_inf _ = False"

fun num_val :: "number \<Rightarrow> rat" where
  "num_val (Finite q) = q"
| "num_val _ = 0"

fun is_zero :: "number \<Rightarrow> bool" where
  "is_zero NegZero = True"
| "is_zero (Finite q) = (q = 0)"
| "is_zero _ = False"

fun sign_bit :: "number \<Rightarrow> bool" where
  "sign_bit NegInf = True"
| "sign_bit NegZero = True"
| "sign_bit (Finite q) = (q < 0)"
| "sign_bit _ = False"

definition signed_zero :: "bool \<Rightarrow> number" where
  "signed_zero neg = (if neg then NegZero else Finite 0)"

definition signed_inf :: "bool \<Rightarrow> number" where
  "signed_inf neg = (if neg then NegInf else PosInf)"

function bit_length :: "int \<Rightarrow> int" where
  "bit_length n = (if n \<le> 0 then 0 else 1 + bit_length (n div 2))"
  by pat_completeness auto
termination
  by (relation "measure nat") auto

declare bit_length.simps [simp del]

definition pow2 :: "int \<Rightarrow> rat" where
  "pow2 k = (if 0 \<le> k then 2 ^ nat k else 1 / 2 ^ nat (- k))"

text \<open>The binary exponent \<open>e\<close> of a positive rational: \<open>2^e \<le> q < 2^(e+1)\<close>.\<close>

definition ilog2 :: "rat \<Rightarrow> int" where
  "ilog2 q =
     (if 1 \<le> q then bit_length \<lfloor>q\<rfloor> - 1 else - bit_length (\<lceil>1 / q\<rceil> - 1))"

definition round_half_even :: "rat \<Rightarrow> int" where
  "round_half_even x =
     (let f = \<lfloor>x\<rfloor>; d = x - of_int f
      in if d < 1 / 2 then f else if 1 / 2 < d then f + 1 else if even f then f else f + 1)"

text \<open>
  Rounding an exact result to binary64: 53 significant bits for a normal result, a step
  of \<open>2^-1074\<close> below \<open>2^-1022\<close>, overflow to an infinity from \<open>2^1024\<close> on.
\<close>

definition fl :: "rat \<Rightarrow> number" where
  "fl q =
     (if q = 0 then Finite 0
      else
        let m = \<bar>q\<bar>;
            p = max (ilog2 m) (- 1022) - 52;
            r = of_int (round_half_even (m / pow2 p)) * pow2 p
        in if pow2 1024 \<le> r then signed_inf (q < 0)
           else if r = 0 then signed_zero (q < 0)
           else Finite (if q < 0 then - r else r))"

text \<open>\<open>x / y\<close>\<close>

definition num_div :: "number \<Rightarrow> number \<Rightarrow> number" where
  "num_div x y =
     (if is_NaN x \<or> is_NaN y then NaN
      else if is_inf x then (if is_inf y then NaN else signed_inf (sign_bit x \<noteq> sign_bit y))
      else if is_inf y then signed_zero (sign_bit x \<noteq> sign_bit y)
      else if is_zero y then (if is_zero x then NaN else signed_inf (sign_bit x \<noteq> sign_bit y))
      else if is_zero x then signed_zero (sign_bit x \<noteq> sign_bit y)
      else fl (num_val x / num_val y))"

text \<open>\<open>x * y\<close>\<close>

definition num_mul :: "number \<Rightarrow> number \<Rightarrow> number" where
  "num_mul x y =
     (if is_NaN x \<or> is_NaN y then NaN
      else if is_inf x \<or> is_inf y then
        (if is_zero x \<or> is_zero y then NaN else signed_inf (sign_bit x \<noteq> sign_bit y))
      else if is_zero x \<or> is_zero y then signed_zero (sign_bit x \<noteq> sign_bit y)
      else fl (num_val x * num_val y))"

text \<open>\<open>x - y\<close>\<close>

definition num_sub :: "number \<Rightarrow> number \<Rightarrow> number" where
  "num_sub x y =
     (if is_NaN x \<or> is_NaN y then NaN
      else if is_inf x then (if is_inf y \<and> sign_bit x = sign_bit y then NaN else x)
      else if is_inf y then signed_inf (\<not> sign_bit y)
      else if num_val x = num_val y then signed_zero (x = NegZero \<and> y = Finite 0)
      else fl (num_val x - num_val y))"

text \<open>\<open>Math.abs(x)\<close>\<close>

fun Math_abs :: "number \<Rightarrow> number" where
  "Math_abs NaN = NaN"
| "Math_abs PosInf = PosInf"
| "Math_abs NegInf = PosInf"
| "Math_abs NegZero = Finite 0"
| "Math_abs (Finite q) = Finite \<bar>q\<bar>"

text \<open>\<open>x < y\<close> and \<open>x > y\<close>: false as soon as one side is \<open>NaN\<close>; the two zeros are equal.\<close>

fun num_rank :: "number \<Rightarrow> int" where
  "num_rank PosInf = 1"
| "num_rank NegInf = - 1"
| "num_rank _ = 0"

definition num_lt :: "number \<Rightarrow> number \<Rightarrow> bool" where
  "num_lt x y =
     (\<not> is_NaN x \<and> \<not> is_NaN y \<and>
      (num_rank x < num_rank y \<or> (num_rank x = num_rank y \<and> num_val x < num_val y)))"

definition num_gt :: "number \<Rightarrow> number \<Rightarrow> bool" where
  "num_gt x y = num_lt y x"

text \<open>
  \<open>Math.min(...xs)\<close>: \<open>Infinity\<close> for no argument, \<open>NaN\<close> as soon as one argument is,
  and \<open>-0\<close> below \<open>+0\<close>.
\<close>

definition num_min :: "number \<Rightarrow> number \<Rightarrow> number" where
  "num_min x y =
     (if is_NaN x \<or> is_NaN y then NaN
      else if num_lt x y then x
      else if num_lt y x then y
      else if x = NegZero then x else y)"

definition Math_min :: "number list \<Rightarrow> number" where
  "Math_min xs = foldl num_min PosInf xs"

subsection \<open>Numbers in template literals\<close>

text \<open>
  A number in a template literal is printed by \<open>Number::toString\<close>: the shortest decimal
  digit string \<open>s\<close> (of \<open>k\<close> digits, scaled by \<open>10^(n-k)\<close>) that reads back as the number,
  the closest one where several of that length do, laid out plainly for \<open>-6 < n \<le> 21\<close>
  and with an exponent otherwise.
\<close>

function dec_length :: "int \<Rightarrow> int" where
  "dec_length n = (if n \<le> 0 then 0 else 1 + dec_length (n div 10))"
  by pat_completeness auto
termination
  by (relation "measure nat") auto

declare dec_length.simps [simp del]

definition pow10 :: "int \<Rightarrow> rat" where
  "pow10 k = (if 0 \<le> k then 10 ^ nat k else 1 / 10 ^ nat (- k))"

text \<open>The decimal exponent \<open>n\<close> of a positive rational: \<open>10^(n-1) \<le> q < 10^n\<close>.\<close>

definition ilog10 :: "rat \<Rightarrow> int" where
  "ilog10 q = (if 1 \<le> q then dec_length \<lfloor>q\<rfloor> else 1 - dec_length (\<lceil>1 / q\<rceil> - 1))"

definition digits_candidate :: "rat \<Rightarrow> int \<Rightarrow> int \<Rightarrow> int option" where
  "digits_candidate q n k =
     (let u = pow10 (n - k);
          lo = \<lfloor>q / u\<rfloor>;
          hi = lo + 1;
          ok_lo = (fl (of_int lo * u) = Finite q);
          ok_hi = (fl (of_int hi * u) = Finite q);
          d_lo = q - of_int lo * u;
          d_hi = of_int hi * u - q
      in if ok_lo \<and> ok_hi then
           Some (if d_lo < d_hi then lo else if d_hi < d_lo then hi else if even lo then lo else hi)
         else if ok_lo then Some lo
         else if ok_hi then Some hi
         else None)"

text \<open>
  The search for the least \<open>k\<close>, from \<open>k\<close> upwards with a bound on the steps. Seventeen
  digits identify every double, so the search from 1 with 17 steps succeeds on each of
  them; the first equation is reached only by a rational that is no double.
\<close>

fun shortest_digits :: "rat \<Rightarrow> int \<Rightarrow> nat \<Rightarrow> int \<Rightarrow> int \<times> int" where
  "shortest_digits q n 0 k = (\<lfloor>q / pow10 (n - k)\<rfloor>, k)"
| "shortest_digits q n (Suc fuel) k =
     (case digits_candidate q n k of
        Some s \<Rightarrow> (s, k)
      | None \<Rightarrow> shortest_digits q n fuel (k + 1))"

definition positive_toString :: "rat \<Rightarrow> string" where
  "positive_toString q =
     (let n0 = ilog10 q;
          (s0, k) = shortest_digits q n0 17 1;
          (s, n) = (if of_int s0 = pow10 k then (s0 div 10, n0 + 1) else (s0, n0));
          ds = show_nat (nat s);
          e = n - 1;
          ex = (if e < 0 then ''-'' else ''+'') @ show_nat (nat \<bar>e\<bar>)
      in if k \<le> n \<and> n \<le> 21 then ds @ replicate (nat (n - k)) (CHR ''0'')
         else if 0 < n \<and> n \<le> 21 then take (nat n) ds @ ''.'' @ drop (nat n) ds
         else if - 6 < n \<and> n \<le> 0 then ''0.'' @ replicate (nat (- n)) (CHR ''0'') @ ds
         else if k = 1 then ds @ ''e'' @ ex
         else take 1 ds @ ''.'' @ drop 1 ds @ ''e'' @ ex)"

fun Number_toString :: "number \<Rightarrow> string" where
  "Number_toString NaN = ''NaN''"
| "Number_toString PosInf = ''Infinity''"
| "Number_toString NegInf = ''-Infinity''"
| "Number_toString NegZero = ''0''"
| "Number_toString (Finite q) =
     (if q = 0 then ''0''
      else if q < 0 then ''-'' @ positive_toString (- q)
      else positive_toString q)"

text \<open>
  \<open>x.toFixed(f)\<close>: the integer \<open>n\<close> nearest to \<open>x * 10^f\<close> (the larger of two), printed with
  \<open>f\<close> digits after the point; a value from \<open>10^21\<close> on is printed as \<open>toString\<close> does.
\<close>

definition finite_toFixed :: "rat \<Rightarrow> nat \<Rightarrow> string" where
  "finite_toFixed q f =
     (let a = \<bar>q\<bar>;
          sgn = (if q < 0 then ''-'' else [])
      in if 10 ^ 21 \<le> a then sgn @ positive_toString a
         else
           let m = show_nat (nat \<lfloor>a * 10 ^ f + 1 / 2\<rfloor>);
               z = (if f \<noteq> 0 \<and> length m \<le> f then replicate (f + 1 - length m) (CHR ''0'') @ m
                    else m)
           in if f = 0 then sgn @ z
              else sgn @ take (length z - f) z @ ''.'' @ drop (length z - f) z)"

fun toFixed :: "number \<Rightarrow> nat \<Rightarrow> string" where
  "toFixed NaN f = ''NaN''"
| "toFixed PosInf f = ''Infinity''"
| "toFixed NegInf f = ''-Infinity''"
| "toFixed NegZero f = finite_toFixed 0 f"
| "toFixed (Finite q) f = finite_toFixed q f"

section \<open>Platform specification registry\<close>

text \<open>
  The interfaces \<open>MediaDimension\<close> and \<open>PlatformSpec\<close>, one record per object type, with
  the field names prefixed where the plain name is wanted for a parameter of a validator.
  The limits of the registry are non-negative integer literals.
\<close>

record MediaDimension =
  dim_name :: string
  dim_width :: nat
  dim_height :: nat
  dim_aspectRatio :: string

record TextSpec =
  maxChars :: nat
  sweetSpot :: "nat option"

record ImageSpec =
  image_formats :: "string list"
  image_maxSizeMB :: nat
  image_dimensions :: "MediaDimension list"

record VideoSpec =
  video_formats :: "string list"
  video_maxSizeMB :: nat
  maxDurationSeconds :: nat
  video_dimensions :: "MediaDimension list"

record HashtagSpec =
  hashtags_max :: nat
  hashtags_recommended :: nat

record OpenGraphSpec =
  og_required :: bool
  og_imageSize :: string

record PlatformSpec =
  spec_name :: string
  spec_text :: TextSpec
  spec_images :: ImageSpec
  spec_videos :: VideoSpec
  spec_hashtags :: HashtagSpec
  spec_openGraph :: "OpenGraphSpec option"

definition instagram :: PlatformSpec where
  "instagram =
     \<lparr>spec_name = ''Instagram'',
      spec_text = \<lparr>maxChars = 2200, sweetSpot = Some 125\<rparr>,
      spec_images =
        \<lparr>image_formats = [''JPG'', ''PNG''],
         image_maxSizeMB = 15,
         image_dimensions =
           [\<lparr>dim_name = ''Square'', dim_width = 1080, dim_height = 1080, dim_aspectRatio = ''1:1''\<rparr>,
            \<lparr>dim_name = ''Portrait'', dim_width = 1080, dim_height = 1350, dim_aspectRatio = ''4:5''\<rparr>,
            \<lparr>dim_name = ''Story/Reel'', dim_width = 1080, dim_height = 1920,
               dim_aspectRatio = ''9:16''\<rparr>]\<rparr>,
      spec_videos =
        \<lparr>video_formats = [''MP4'', ''MOV''],
         video_maxSizeMB = 15,
         maxDurationSeconds = 900,
         video_dimensions =
           [\<lparr>dim_name = ''Story'', dim_width = 1080, dim_height = 1920, dim_aspectRatio = ''9:16''\<rparr>,
            \<lparr>dim_name = ''Reel'', dim_width = 1080, dim_height = 1920, dim_aspectRatio = ''9:16''\<rparr>]\<rparr>,
      spec_hashtags = \<lparr>hashtags_max = 5, hashtags_recommended = 3\<rparr>,
      spec_openGraph = None\<rparr>"

definition twitter :: PlatformSpec where
  "twitter =
     \<lparr>spec_name = ''X (Twitter)'',
      spec_text = \<lparr>maxChars = 280, sweetSpot = None\<rparr>,
      spec_images =
        \<lparr>image_formats = [''JPG'', ''PNG'', ''GIF''],
         image_maxSizeMB = 5,
         image_dimensions =
           [\<lparr>dim_name = ''Standard'', dim_width = 1200, dim_height = 675,
               dim_aspectRatio = ''16:9''\<rparr>]\<rparr>,
      spec_videos =
        \<lparr>video_formats = [''MP4'', ''MOV''],
         video_maxSizeMB = 512,
         maxDurationSeconds = 140,
         video_dimensions =
           [\<lparr>dim_name = ''Landscape'', dim_width = 1280, dim_height = 720,
               dim_aspectRatio = ''16:9''\<rparr>,
            \<lparr>dim_name = ''Portrait'', dim_width = 720, dim_height = 1280,
               dim_aspectRatio = ''9:16''\<rparr>]\<rparr>,
      spec_hashtags = \<lparr>hashtags_max = 999, hashtags_recommended = 2\<rparr>,
      spec_openGraph = None\<rparr>"

definition facebook :: PlatformSpec where
  "facebook =
     \<lparr>spec_name = ''Facebook'',
      spec_text = \<lparr>maxChars = 63206, sweetSpot = Some 80\<rparr>,
      spec_images =
        \<lparr>image_formats = [''JPG'', ''PNG''],
         image_maxSizeMB = 30,
         image_dimensions =
           [\<lparr>dim_name = ''Standard'', dim_width = 1200, dim_height = 630,
               dim_aspectRatio = ''1.91:1''\<rparr>]\<rparr>,
      spec_videos =
        \<lparr>video_formats = [''MP4''],
         video_maxSizeMB = 4000,
         maxDurationSeconds = 14460,
         video_dimensions =
           [\<lparr>dim_name = ''Landscape'', dim_width = 1280, dim_height = 720,
               dim_aspectRatio = ''16:9''\<rparr>,
            \<lparr>dim_name = ''Portrait'', dim_width = 1080, dim_height = 1920,
               dim_aspectRatio = ''9:16''\<rparr>]\<rparr>,
      spec_hashtags = \<lparr>hashtags_max = 999, hashtags_recommended = 2\<rparr>,
      spec_openGraph = Some \<lparr>og_required = True, og_imageSize = ''1200x630''\<rparr>\<rparr>"

definition tiktok :: PlatformSpec where
  "tiktok =
     \<lparr>spec_name = ''TikTok'',
      spec_text = \<lparr>maxChars = 4000, sweetSpot = None\<rparr>,
      spec_images =
        \<lparr>image_formats = [''JPG'', ''PNG''],
         image_maxSizeMB = 50,
         image_dimensions =
           [\<lparr>dim_name = ''Story Carousel'', dim_width = 1080, dim_height = 1920,
               dim_aspectRatio = ''9:16''\<rparr>]\<rparr>,
      spec_videos =
        \<lparr>video_formats = [''MP4'', ''MOV''],
         video_maxSizeMB = 50,
         maxDurationSeconds = 3600,
         video_dimensions =
           [\<lparr>dim_name = ''Standard'', dim_width = 1080, dim_height = 1920,
               dim_aspectRatio = ''9:16''\<rparr>]\<rparr>,
      spec_hashtags = \<lparr>hashtags_max = 30, hashtags_recommended = 3\<rparr>,
      spec_openGraph = None\<rparr>"

definition linkedin :: PlatformSpec where
  "linkedin =
     \<lparr>spec_name = ''LinkedIn'',
      spec_text = \<lparr>maxChars = 3000, sweetSpot = Some 1500\<rparr>,
      spec_images =
        \<lparr>image_formats = [''JPG'', ''PNG''],
         image_maxSizeMB = 10,
         image_dimensions =
           [\<lparr>dim_name = ''Standard'', dim_width = 1200, dim_height = 627,
               dim_aspectRatio = ''1.91:1''\<rparr>,
            \<lparr>dim_name = ''Story'', dim_width = 1080, dim_height = 1920,
               dim_aspectRatio = ''9:16''\<rparr>]\<rparr>,
      spec_videos =
        \<lparr>video_formats = [''MP4'', ''MOV''],
         video_maxSizeMB = 200,
         maxDurationSeconds = 600,
         video_dimensions =
           [\<lparr>dim_name = ''Landscape'', dim_width = 1280, dim_height = 720,
               dim_aspectRatio = ''16:9''\<rparr>]\<rparr>,
      spec_hashtags = \<lparr>hashtags_max = 999, hashtags_recommended = 5\<rparr>,
      spec_openGraph = None\<rparr>"

text \<open>The own properties of the object literal \<open>PLATFORM_SPECS\<close>, in declaration order.\<close>

definition PLATFORM_SPECS :: "(string \<times> PlatformSpec) list" where
  "PLATFORM_SPECS =
     [(''instagram'', instagram), (''twitter'', twitter), (''facebook'', facebook),
      (''tiktok'', tiktok), (''linkedin'', linkedin)]"

text \<open>
  \<open>PLATFORM_SPECS\<close> is an ordinary object, so \<open>PLATFORM_SPECS[key]\<close> looks \<open>key\<close> up among
  the own properties and then on \<open>Object.prototype\<close>. What it finds there (the function
  \<open>Object\<close> under \<open>constructor\<close>, the prototype itself under \<open>__proto__\<close>, a method under
  the other names) is a truthy value that has none of the properties \<open>text\<close>, \<open>images\<close>,
  \<open>videos\<close> and \<open>hashtags\<close>.
\<close>

definition Object_prototype_keys :: "string list" where
  "Object_prototype_keys =
     [''constructor'', ''__defineGetter__'', ''__defineSetter__'', ''hasOwnProperty'',
      ''__lookupGetter__'', ''__lookupSetter__'', ''isPrototypeOf'', ''propertyIsEnumerable'',
      ''toString'', ''valueOf'', ''__proto__'', ''toLocaleString'']"

datatype js_value = Spec PlatformSpec | Inherited string | Undefined | Null

fun truthy :: "js_value \<Rightarrow> bool" where
  "truthy (Spec _) = True"
| "truthy (Inherited _) = True"
| "truthy Undefined = False"
| "truthy Null = False"

definition PLATFORM_SPECS_at :: "string \<Rightarrow> js_value" where
  "PLATFORM_SPECS_at key =
     (case map_of PLATFORM_SPECS key of
        Some spec \<Rightarrow> Spec spec
      | None \<Rightarrow> if key \<in> set Object_prototype_keys then Inherited key else Undefined)"

text \<open>\<open>Object.keys(PLATFORM_SPECS)\<close>\<close>

definition getSupportedPlatforms :: "string list" where
  "getSupportedPlatforms = map fst PLATFORM_SPECS"

text \<open>\<open>return PLATFORM_SPECS[platform.toLowerCase()] || null\<close>\<close>

definition getPlatformSpec :: "string \<Rightarrow> js_value" where
  "getPlatformSpec platform =
     (let v = PLATFORM_SPECS_at (toLowerCase platform) in if truthy v then v else Null)"

section \<open>Content validator\<close>

text \<open>
  \<open>stats\<close> is an object with optional numeric properties: an association list from
  property name to number, in the order the properties are written.
\<close>

datatype stat_key =
  CharCount | CharLimit | FileSizeMB | MaxSizeMB | HashtagCount | HashtagLimit
  | Width | Height | DurationSeconds | MaxDurationSeconds

type_synonym stats_object = "(stat_key \<times> number) list"

record ValidationResult =
  valid :: bool
  errors :: "string list"
  warnings :: "string list"
  stats :: stats_object

text \<open>
  Reading a property of \<open>undefined\<close> throws a \<open>TypeError\<close>; a validator returns either
  that or its result.
\<close>

datatype error = TypeError

text \<open>The result every validator returns when \<open>!spec\<close> holds.\<close>

definition unknown_platform :: "string \<Rightarrow> ValidationResult" where
  "unknown_platform platform =
     \<lparr>valid = False,
      errors = [''Unknown platform: '' @ platform],
      warnings = [],
      stats = []\<rparr>"

subsection \<open>Text\<close>

definition char_limit_error :: "PlatformSpec \<Rightarrow> nat \<Rightarrow> string" where
  "char_limit_error spec charCount =
     ''Content exceeds '' @ spec_name spec @ '' character limit ('' @ show_nat charCount
     @ ''/'' @ show_nat (maxChars (spec_text spec)) @ '')''"

definition sweet_spot_warning :: "PlatformSpec \<Rightarrow> nat \<Rightarrow> nat \<Rightarrow> string" where
  "sweet_spot_warning spec charCount sweet =
     ''Content exceeds optimal length for '' @ spec_name spec @ '' ('' @ show_nat charCount
     @ ''/'' @ show_nat sweet @ '' chars). ''
     @ ''Consider keeping key message in first '' @ show_nat sweet
     @ '' characters for better visibility.''"

definition very_short_warning :: "nat \<Rightarrow> string" where
  "very_short_warning charCount =
     ''Content is very short ('' @ show_nat charCount
     @ '' chars). Consider adding more context for better engagement.''"

definition validateTextContent :: "string \<Rightarrow> string \<Rightarrow> error + ValidationResult" where
  "validateTextContent platform content =
     (let spec = PLATFORM_SPECS_at (toLowerCase platform)
      in if \<not> truthy spec then Inr (unknown_platform platform)
         else
           case spec of
             Spec spec \<Rightarrow>
               let charCount = length content;
                   errors = (if charCount > maxChars (spec_text spec)
                             then [char_limit_error spec charCount] else []);
                   warnings =
                     (case sweetSpot (spec_text spec) of
                        None \<Rightarrow> []
                      | Some sweet \<Rightarrow>
                          if sweet \<noteq> 0 \<and> charCount > sweet
                          then [sweet_spot_warning spec charCount sweet] else [])
                     @ (if charCount < 10 \<and> charCount > 0
                        then [very_short_warning charCount] else [])
               in Inr \<lparr>valid = (length errors = 0),
                       errors = errors,
                       warnings = warnings,
                       stats = [(CharCount, number_of_nat charCount),
                                (CharLimit, number_of_nat (maxChars (spec_text spec)))]\<rparr>
           | _ \<Rightarrow> Inl TypeError)"

subsection \<open>Hashtags\<close>

definition too_many_hashtags_error :: "PlatformSpec \<Rightarrow> nat \<Rightarrow> string" where
  "too_many_hashtags_error spec count =
     ''Too many hashtags for '' @ spec_name spec @ '' ('' @ show_nat count @ ''/''
     @ show_nat (hashtags_max (spec_hashtags spec)) @ '')''"

definition over_recommended_warning :: "PlatformSpec \<Rightarrow> nat \<Rightarrow> string" where
  "over_recommended_warning spec count =
     ''More hashtags than recommended for '' @ spec_name spec @ ''. ''
     @ ''Recommended: '' @ show_nat (hashtags_recommended (spec_hashtags spec))
     @ '', Current: '' @ show_nat count @ ''. ''
     @ ''Research shows fewer, more targeted hashtags often perform better.''"

definition empty_hashtag_error :: "nat \<Rightarrow> string" where
  "empty_hashtag_error index = ''Hashtag '' @ show_nat (index + 1) @ '' is empty''"

definition spaces_error :: "string \<Rightarrow> string" where
  \<open>spaces_error tag = ''Hashtag "'' @ tag @ ''" contains spaces (invalid)''\<close>

definition long_hashtag_warning :: "string \<Rightarrow> nat \<Rightarrow> string" where
  \<open>long_hashtag_warning tag n =
     ''Hashtag "'' @ tag @ ''" is very long ('' @ show_nat n @ '' chars). ''
     @ ''Consider using shorter, more memorable tags.''\<close>

definition no_hashtags_warning :: "PlatformSpec \<Rightarrow> string" where
  "no_hashtags_warning spec =
     ''No hashtags provided. Hashtags can significantly improve discoverability on ''
     @ spec_name spec @ ''.''"

text \<open>
  The callback of \<open>hashtags.forEach\<close>: it pushes to \<open>errors\<close> and \<open>warnings\<close>, here the
  two components of the state it takes and returns.
\<close>

definition check_hashtag ::
  "string list \<times> string list \<Rightarrow> string \<times> nat \<Rightarrow> string list \<times> string list" where
  "check_hashtag acc ti =
     (let (errors, warnings) = acc;
          (tag, index) = ti;
          cleanTag = strip_leading_hash tag;
          errors = (if length cleanTag = 0 then errors @ [empty_hashtag_error index] else errors);
          errors = (if includes_space cleanTag then errors @ [spaces_error tag] else errors);
          warnings = (if length cleanTag > 30
                      then warnings @ [long_hashtag_warning tag (length cleanTag)]
                      else warnings)
      in (errors, warnings))"

definition validateHashtags :: "string \<Rightarrow> string list \<Rightarrow> error + ValidationResult" where
  "validateHashtags platform hashtags =
     (let spec = PLATFORM_SPECS_at (toLowerCase platform)
      in if \<not> truthy spec then Inr (unknown_platform platform)
         else
           case spec of
             Spec spec \<Rightarrow>
               let count = length hashtags;
                   errors = (if count > hashtags_max (spec_hashtags spec)
                             then [too_many_hashtags_error spec count] else []);
                   warnings = (if count > hashtags_recommended (spec_hashtags spec)
                               then [over_recommended_warning spec count] else []);
                   (errors, warnings) =
                     foldl check_hashtag (errors, warnings) (zip hashtags [0..<count]);
                   warnings =
                     (if count = 0
                         \<and> toLowerCase platform \<in> set [''instagram'', ''tiktok'', ''twitter'']
                      then warnings @ [no_hashtags_warning spec] else warnings)
               in Inr \<lparr>valid = (length errors = 0),
                       errors = errors,
                       warnings = warnings,
                       stats = [(HashtagCount, number_of_nat count),
                                (HashtagLimit, number_of_nat (hashtags_max (spec_hashtags spec)))]\<rparr>
           | _ \<Rightarrow> Inl TypeError)"

subsection \<open>Images and videos\<close>

text \<open>\<open>s.replace(pattern, replacement)\<close> with a string pattern: the first occurrence only.\<close>

fun replace_first :: "string \<Rightarrow> string \<Rightarrow> string \<Rightarrow> string" where
  "replace_first pat rep [] = (if pat = [] then rep else [])"
| "replace_first pat rep (c # cs) =
     (if take (length pat) (c # cs) = pat then rep @ drop (length pat) (c # cs)
      else c # replace_first pat rep cs)"

text \<open>
  The callback of \<open>dimensions.find\<close>: the quotient of the two sides, the quotient of the
  entry's sides, their difference and its absolute value are doubles, compared with the
  double that the literal \<open>0.05\<close> denotes.
\<close>

definition ratio_matches :: "number \<Rightarrow> MediaDimension \<Rightarrow> bool" where
  "ratio_matches aspectRatio d =
     (let dimRatio = num_div (number_of_nat (dim_width d)) (number_of_nat (dim_height d))
      in num_lt (Math_abs (num_sub aspectRatio dimRatio)) (fl (5 / 100)))"

definition recommendedRatios :: "MediaDimension list \<Rightarrow> string" where
  "recommendedRatios dims =
     join_comma (map (\<lambda>d. dim_name d @ '' ('' @ dim_aspectRatio d @ '')'') dims)"

definition image_format_error :: "PlatformSpec \<Rightarrow> string" where
  "image_format_error spec =
     ''Invalid image format for '' @ spec_name spec @ ''. ''
     @ ''Supported formats: '' @ join_comma (image_formats (spec_images spec))"

definition image_size_error :: "PlatformSpec \<Rightarrow> number \<Rightarrow> string" where
  "image_size_error spec fileSizeMB =
     ''Image size exceeds '' @ spec_name spec @ '' limit ''
     @ ''('' @ toFixed fileSizeMB 2 @ ''MB / '' @ show_nat (image_maxSizeMB (spec_images spec))
     @ ''MB)''"

definition image_ratio_warning :: "PlatformSpec \<Rightarrow> number \<Rightarrow> number \<Rightarrow> string" where
  "image_ratio_warning spec width height =
     ''Image aspect ratio ('' @ Number_toString width @ ''x'' @ Number_toString height
     @ '') doesn't match ''
     @ ''recommended dimensions for '' @ spec_name spec @ ''. ''
     @ ''Recommended: '' @ recommendedRatios (image_dimensions (spec_images spec)) @ ''. ''
     @ ''Your image may be cropped or not display optimally.''"

definition small_width_warning :: "PlatformSpec \<Rightarrow> number \<Rightarrow> number \<Rightarrow> string" where
  "small_width_warning spec width minRecommendedWidth =
     ''Image width ('' @ Number_toString width @ ''px) is quite small. ''
     @ ''Recommended minimum: '' @ Number_toString minRecommendedWidth
     @ ''px for best quality on '' @ spec_name spec @ ''.''"

definition validateImage ::
  "string \<Rightarrow> number \<Rightarrow> number \<Rightarrow> number \<Rightarrow> string \<Rightarrow> error + ValidationResult" where
  "validateImage platform width height fileSizeMB format =
     (let spec = PLATFORM_SPECS_at (toLowerCase platform)
      in if \<not> truthy spec then Inr (unknown_platform platform)
         else
           case spec of
             Spec spec \<Rightarrow>
               let normalizedFormat = replace_first ''JPEG'' ''JPG'' (toUpperCase format);
                   errors =
                     (if normalizedFormat \<notin> set (image_formats (spec_images spec))
                      then [image_format_error spec] else [])
                     @ (if num_gt fileSizeMB (number_of_nat (image_maxSizeMB (spec_images spec)))
                        then [image_size_error spec fileSizeMB] else []);
                   aspectRatio = num_div width height;
                   matchingDimension =
                     find (ratio_matches aspectRatio) (image_dimensions (spec_images spec));
                   minRecommendedWidth =
                     Math_min (map (\<lambda>d. number_of_nat (dim_width d))
                                 (image_dimensions (spec_images spec)));
                   warnings =
                     (if matchingDimension = None
                      then [image_ratio_warning spec width height] else [])
                     @ (if num_lt width (num_mul minRecommendedWidth (Finite (1 / 2)))
                        then [small_width_warning spec width minRecommendedWidth] else [])
               in Inr \<lparr>valid = (length errors = 0),
                       errors = errors,
                       warnings = warnings,
                       stats = [(Width, width), (Height, height), (FileSizeMB, fileSizeMB),
                                (MaxSizeMB, number_of_nat (image_maxSizeMB (spec_images spec)))]\<rparr>
           | _ \<Rightarrow> Inl TypeError)"

definition video_format_error :: "PlatformSpec \<Rightarrow> string" where
  "video_format_error spec =
     ''Invalid video format for '' @ spec_name spec @ ''. ''
     @ ''Supported formats: '' @ join_comma (video_formats (spec_videos spec))"

definition video_size_error :: "PlatformSpec \<Rightarrow> number \<Rightarrow> string" where
  "video_size_error spec fileSizeMB =
     ''Video size exceeds '' @ spec_name spec @ '' limit ''
     @ ''('' @ toFixed fileSizeMB 2 @ ''MB / '' @ show_nat (video_maxSizeMB (spec_videos spec))
     @ ''MB)''"

definition video_duration_error :: "PlatformSpec \<Rightarrow> number \<Rightarrow> string" where
  "video_duration_error spec durationSeconds =
     ''Video duration exceeds '' @ spec_name spec @ '' limit ''
     @ ''('' @ Number_toString durationSeconds @ ''s / ''
     @ show_nat (maxDurationSeconds (spec_videos spec)) @ ''s)''"

definition short_video_warning :: "number \<Rightarrow> string" where
  "short_video_warning durationSeconds =
     ''Video is very short ('' @ Number_toString durationSeconds @ ''s). ''
     @ ''Consider making it at least 3-5 seconds for better viewer experience.''"

definition video_ratio_warning :: "PlatformSpec \<Rightarrow> number \<Rightarrow> number \<Rightarrow> string" where
  "video_ratio_warning spec width height =
     ''Video aspect ratio ('' @ Number_toString width @ ''x'' @ Number_toString height
     @ '') doesn't match ''
     @ ''recommended dimensions for '' @ spec_name spec @ ''. ''
     @ ''Recommended: '' @ recommendedRatios (video_dimensions (spec_videos spec)) @ ''. ''
     @ ''Your video may be cropped or pillarboxed.''"

definition instagram_reels_warning :: string where
  "instagram_reels_warning =
     ''Video is longer than 90 seconds. For Instagram, in-app recorded Reels are limited to 90s. ''
     @ ''Uploaded videos can be up to 15 minutes but shorter content often performs better.''"

definition tiktok_engagement_warning :: string where
  "tiktok_engagement_warning =
     ''Video is longer than 60 seconds. While TikTok supports up to 60 minutes, ''
     @ ''shorter content (15-60s) typically gets better engagement.''"

definition validateVideo ::
  "string \<Rightarrow> number \<Rightarrow> number \<Rightarrow> number \<Rightarrow> number \<Rightarrow> string \<Rightarrow> error + ValidationResult"
  where
  "validateVideo platform width height durationSeconds fileSizeMB format =
     (let spec = PLATFORM_SPECS_at (toLowerCase platform)
      in if \<not> truthy spec then Inr (unknown_platform platform)
         else
           case spec of
             Spec spec \<Rightarrow>
               let normalizedFormat = toUpperCase format;
                   errors =
                     (if normalizedFormat \<notin> set (video_formats (spec_videos spec))
                      then [video_format_error spec] else [])
                     @ (if num_gt fileSizeMB (number_of_nat (video_maxSizeMB (spec_videos spec)))
                        then [video_size_error spec fileSizeMB] else [])
                     @ (if num_gt durationSeconds
                             (number_of_nat (maxDurationSeconds (spec_videos spec)))
                        then [video_duration_error spec durationSeconds] else []);
                   aspectRatio = num_div width height;
                   matchingDimension =
                     find (ratio_matches aspectRatio) (video_dimensions (spec_videos spec));
                   warnings =
                     (if num_lt durationSeconds (Finite 3)
                      then [short_video_warning durationSeconds] else [])
                     @ (if matchingDimension = None
                        then [video_ratio_warning spec width height] else [])
                     @ (if toLowerCase platform = ''instagram'' \<and> num_gt durationSeconds (Finite 90)
                        then [instagram_reels_warning] else [])
                     @ (if toLowerCase platform = ''tiktok'' \<and> num_gt durationSeconds (Finite 60)
                        then [tiktok_engagement_warning] else [])
               in Inr \<lparr>valid = (length errors = 0),
                       errors = errors,
                       warnings = warnings,
                       stats = [(Width, width), (Height, height),
                                (DurationSeconds, durationSeconds),
                                (MaxDurationSeconds,
                                 number_of_nat (maxDurationSeconds (spec_videos spec))),
                                (FileSizeMB, fileSizeMB),
                                (MaxSizeMB, number_of_nat (video_maxSizeMB (spec_videos spec)))]\<rparr>
           | _ \<Rightarrow> Inl TypeError)"

subsection \<open>Post\<close>

text \<open>
  \<open>{...a, ...b}\<close> copies the properties of \<open>a\<close> and then of \<open>b\<close> into a fresh object;
  writing a property that is there already replaces its value in place.
\<close>

fun set_property :: "stats_object \<Rightarrow> stat_key \<times> number \<Rightarrow> stats_object" where
  "set_property [] kv = [kv]"
| "set_property (p # ps) kv = (if fst p = fst kv then kv # ps else p # set_property ps kv)"

definition spread :: "stats_object \<Rightarrow> stats_object \<Rightarrow> stats_object" where
  "spread target source = foldl set_property target source"

definition validatePost :: "string \<Rightarrow> string \<Rightarrow> string list \<Rightarrow> error + ValidationResult" where
  "validatePost platform content hashtags =
     (case validateTextContent platform content of
        Inl e \<Rightarrow> Inl e
      | Inr textResult \<Rightarrow>
          (case validateHashtags platform hashtags of
             Inl e \<Rightarrow> Inl e
           | Inr hashtagResult \<Rightarrow>
               Inr \<lparr>valid = (valid textResult \<and> valid hashtagResult),
                    errors = errors textResult @ errors hashtagResult,
                    warnings = warnings textResult @ warnings hashtagResult,
                    stats = spread (spread [] (stats textResult)) (stats hashtagResult)\<rparr>))"

section \<open>Notions used in the statements\<close>

text \<open>What one pass of the \<open>forEach\<close> callback appends for a tag at an index.\<close>

definition hashtag_errors :: "string \<times> nat \<Rightarrow> string list" where
  "hashtag_errors ti =
     (if length (strip_leading_hash (fst ti)) = 0 then [empty_hashtag_error (snd ti)] else [])
     @ (if includes_space (strip_leading_hash (fst ti)) then [spaces_error (fst ti)] else [])"

definition hashtag_warnings :: "string \<times> nat \<Rightarrow> string list" where
  "hashtag_warnings ti =
     (if length (strip_leading_hash (fst ti)) > 30
      then [long_hashtag_warning (fst ti) (length (strip_leading_hash (fst ti)))] else [])"

text \<open>
  Two messages that are the same up to the tag they echo: equal, or the same per-tag
  message about a tag and about that tag with a leading \<open>#\<close>.
\<close>

inductive same_up_to_tag :: "string \<Rightarrow> string \<Rightarrow> bool" where
  same: "same_up_to_tag m m"
| spaces: "same_up_to_tag (spaces_error t) (spaces_error (CHR ''#'' # t))"
| long: "same_up_to_tag (long_hashtag_warning t n) (long_hashtag_warning (CHR ''#'' # t) n)"

text \<open>
  The tolerance test read over the rationals, with no rounding: the absolute difference
  between \<open>width / height\<close> and the entry's own ratio is strictly below \<open>0.05\<close>.
\<close>

definition exact_ratio_matches :: "rat \<Rightarrow> rat \<Rightarrow> MediaDimension \<Rightarrow> bool" where
  "exact_ratio_matches width height e \<longleftrightarrow>
     \<bar>width / height - of_nat (dim_width e) / of_nat (dim_height e)\<bar> < 5 / 100"


section \<open>Registry lookup\<close>

lemma toLowerCase_char_idem: "toLowerCase_char (toLowerCase_char c) = toLowerCase_char c"
  by (simp add: toLowerCase_char_def split: option.splits if_splits)

lemma toLowerCase_idem: "toLowerCase (toLowerCase s) = toLowerCase s"
  by (simp add: toLowerCase_def toLowerCase_char_idem)

lemma PLATFORM_SPECS_at_Spec:
  "map_of PLATFORM_SPECS key = Some spec \<Longrightarrow> PLATFORM_SPECS_at key = Spec spec"
  by (simp add: PLATFORM_SPECS_at_def)

lemma PLATFORM_SPECS_at_Undefined:
  assumes "key \<notin> set getSupportedPlatforms" and "key \<notin> set Object_prototype_keys"
  shows "PLATFORM_SPECS_at key = Undefined"
proof -
  have "map_of PLATFORM_SPECS key = None"
    using assms(1) by (simp add: getSupportedPlatforms_def map_of_eq_None_iff)
  with assms(2) show ?thesis
    by (simp add: PLATFORM_SPECS_at_def)
qed

lemma supported_cases:
  assumes "map_of PLATFORM_SPECS key = Some spec"
  shows "(key, spec) \<in> {(''instagram'', instagram), (''twitter'', twitter),
            (''facebook'', facebook), (''tiktok'', tiktok), (''linkedin'', linkedin)}"
  using assms by (auto simp: PLATFORM_SPECS_def split: if_splits)

text \<open>
  The lookup key is a lower-case form, and only two property names of \<open>Object.prototype\<close>
  are their own lower-case form.
\<close>

lemma lowercase_prototype_keys_filter:
  "filter (\<lambda>k. toLowerCase k = k) Object_prototype_keys = [''constructor'', ''__proto__'']"
  by (simp add: Object_prototype_keys_def toLowerCase_def toLowerCase_char_def)

lemma lowercase_prototype_keys:
  "toLowerCase s \<in> set Object_prototype_keys \<longleftrightarrow>
     toLowerCase s = ''constructor'' \<or> toLowerCase s = ''__proto__''"
proof -
  have "toLowerCase s \<in> set Object_prototype_keys \<longleftrightarrow>
        toLowerCase s \<in> set (filter (\<lambda>k. toLowerCase k = k) Object_prototype_keys)"
    by (simp add: toLowerCase_idem)
  then show ?thesis
    by (simp add: lowercase_prototype_keys_filter)
qed

lemma getPlatformSpec_case_insensitive: "getPlatformSpec s = getPlatformSpec (toLowerCase s)"
  by (simp add: getPlatformSpec_def toLowerCase_idem)

lemma getPlatformSpec_absent:
  assumes "toLowerCase s \<notin> set getSupportedPlatforms"
    and "toLowerCase s \<notin> {''constructor'', ''__proto__''}"
  shows "getPlatformSpec s = Null"
proof -
  have "toLowerCase s \<notin> set Object_prototype_keys"
    using assms(2) by (simp add: lowercase_prototype_keys)
  with assms(1) have "PLATFORM_SPECS_at (toLowerCase s) = Undefined"
    by (rule PLATFORM_SPECS_at_Undefined)
  then show ?thesis
    by (simp add: getPlatformSpec_def)
qed

text \<open>
  C9: \<open>getPlatformSpec\<close> matches its argument case-insensitively and is meant to return
  the absent value for every string whose lower-case form is not a registry key. At
  \<open>"constructor"\<close>, which is no registry key, the lookup reaches \<open>Object.prototype\<close> and
  \<open>getPlatformSpec\<close> returns what it finds there, neither a specification nor \<open>null\<close>.
\<close>

theorem getPlatformSpec_constructor:
  "toLowerCase ''constructor'' \<notin> set getSupportedPlatforms
   \<and> getPlatformSpec ''constructor'' = Inherited ''constructor''
   \<and> getPlatformSpec ''constructor'' \<noteq> Null"
  by (simp add: getPlatformSpec_def getSupportedPlatforms_def PLATFORM_SPECS_at_def
      PLATFORM_SPECS_def Object_prototype_keys_def toLowerCase_def toLowerCase_char_def)

section \<open>Text\<close>

lemma validateTextContent_supported:
  assumes "map_of PLATFORM_SPECS (toLowerCase platform) = Some spec"
  shows "validateTextContent platform content =
     Inr \<lparr>valid = \<not> length content > maxChars (spec_text spec),
          errors = (if length content > maxChars (spec_text spec)
                    then [char_limit_error spec (length content)] else []),
          warnings =
            (case sweetSpot (spec_text spec) of
               None \<Rightarrow> []
             | Some sweet \<Rightarrow>
                 if sweet \<noteq> 0 \<and> length content > sweet
                 then [sweet_spot_warning spec (length content) sweet] else [])
            @ (if length content < 10 \<and> length content > 0
               then [very_short_warning (length content)] else []),
          stats = [(CharCount, number_of_nat (length content)),
                   (CharLimit, number_of_nat (maxChars (spec_text spec)))]\<rparr>"
  using assms by (simp add: validateTextContent_def PLATFORM_SPECS_at_Spec Let_def)

text \<open>
  C10: for every supported platform, empty content is valid with no error and no warning,
  and the stats are \<open>charCount = 0\<close> and \<open>charLimit = maxChars\<close>.
\<close>

theorem empty_content_passes_silently:
  assumes "map_of PLATFORM_SPECS (toLowerCase p) = Some spec"
  shows "validateTextContent p [] =
     Inr \<lparr>valid = True, errors = [], warnings = [],
          stats = [(CharCount, number_of_nat 0),
                   (CharLimit, number_of_nat (maxChars (spec_text spec)))]\<rparr>"
  using assms by (simp add: validateTextContent_supported split: option.splits)

theorem empty_content_passes_silently_witness:
  "map_of PLATFORM_SPECS (toLowerCase ''LinkedIn'') = Some linkedin
   \<and> validateTextContent ''LinkedIn'' [] =
       Inr \<lparr>valid = True, errors = [], warnings = [],
            stats = [(CharCount, Finite 0), (CharLimit, Finite 3000)]\<rparr>"
proof -
  have h: "map_of PLATFORM_SPECS (toLowerCase ''LinkedIn'') = Some linkedin"
    by (simp add: PLATFORM_SPECS_def toLowerCase_def toLowerCase_char_def)
  show ?thesis
    using h empty_content_passes_silently [OF h] by (simp add: number_of_nat_def linkedin_def)
qed

text \<open>
  C2: for every supported platform \<open>p\<close> with specification \<open>spec\<close> and every content \<open>c\<close>,
  \<open>validateTextContent\<close> returns a result; if \<open>length c \<le> maxChars\<close> its errors are empty,
  and if \<open>length c > maxChars\<close> it is not valid, \<open>stats.charCount\<close> is \<open>length c\<close> and
  \<open>stats.charLimit\<close> is \<open>maxChars\<close>.
\<close>

theorem text_char_limit:
  assumes "map_of PLATFORM_SPECS (toLowerCase p) = Some spec"
  shows "\<exists>r. validateTextContent p c = Inr r
     \<and> (length c \<le> maxChars (spec_text spec) \<longrightarrow> errors r = [])
     \<and> (length c > maxChars (spec_text spec) \<longrightarrow>
          \<not> valid r
          \<and> map_of (stats r) CharCount = Some (number_of_nat (length c))
          \<and> map_of (stats r) CharLimit = Some (number_of_nat (maxChars (spec_text spec))))"
  using assms by (simp add: validateTextContent_supported)

theorem text_char_limit_witness:
  "map_of PLATFORM_SPECS (toLowerCase ''twitter'') = Some twitter
   \<and> length (replicate 280 (CHR ''A'')) \<le> maxChars (spec_text twitter)
   \<and> (\<exists>r. validateTextContent ''twitter'' (replicate 280 (CHR ''A'')) = Inr r \<and> errors r = [])
   \<and> length (replicate 281 (CHR ''A'')) > maxChars (spec_text twitter)
   \<and> (\<exists>r. validateTextContent ''twitter'' (replicate 281 (CHR ''A'')) = Inr r
          \<and> \<not> valid r
          \<and> map_of (stats r) CharCount = Some (Finite 281)
          \<and> map_of (stats r) CharLimit = Some (Finite 280))"
proof -
  have h: "map_of PLATFORM_SPECS (toLowerCase ''twitter'') = Some twitter"
    by (simp add: PLATFORM_SPECS_def toLowerCase_def toLowerCase_char_def)
  have m: "maxChars (spec_text twitter) = 280"
    by (simp add: twitter_def)
  show ?thesis
    using h text_char_limit [OF h, of "replicate 280 (CHR ''A'')"]
      text_char_limit [OF h, of "replicate 281 (CHR ''A'')"]
    by (simp add: m number_of_nat_def)
qed

section \<open>Hashtags\<close>

lemma foldl_check_hashtag:
  "foldl check_hashtag (es, ws) xs =
     (es @ concat (map hashtag_errors xs), ws @ concat (map hashtag_warnings xs))"
proof (induction xs arbitrary: es ws)
  case Nil
  show ?case by simp
next
  case (Cons x xs)
  obtain tag index where x: "x = (tag, index)" by (cases x)
  have "check_hashtag (es, ws) x = (es @ hashtag_errors x, ws @ hashtag_warnings x)"
    by (simp add: x check_hashtag_def hashtag_errors_def hashtag_warnings_def Let_def)
  then show ?case
    by (simp add: Cons.IH)
qed

lemma validateHashtags_supported:
  assumes "map_of PLATFORM_SPECS (toLowerCase platform) = Some spec"
  shows "validateHashtags platform hashtags =
     Inr \<lparr>valid =
            (\<not> length hashtags > hashtags_max (spec_hashtags spec)
             \<and> concat (map hashtag_errors (zip hashtags [0..<length hashtags])) = []),
          errors =
            (if length hashtags > hashtags_max (spec_hashtags spec)
             then [too_many_hashtags_error spec (length hashtags)] else [])
            @ concat (map hashtag_errors (zip hashtags [0..<length hashtags])),
          warnings =
            (if length hashtags > hashtags_recommended (spec_hashtags spec)
             then [over_recommended_warning spec (length hashtags)] else [])
            @ concat (map hashtag_warnings (zip hashtags [0..<length hashtags]))
            @ (if length hashtags = 0
                  \<and> toLowerCase platform \<in> set [''instagram'', ''tiktok'', ''twitter'']
               then [no_hashtags_warning spec] else []),
          stats = [(HashtagCount, number_of_nat (length hashtags)),
                   (HashtagLimit, number_of_nat (hashtags_max (spec_hashtags spec)))]\<rparr>"
  using assms
  by (simp add: validateHashtags_def PLATFORM_SPECS_at_Spec Let_def foldl_check_hashtag)

text \<open>Every message of the per-tag pass begins with \<open>Hashtag\<close>.\<close>

lemma hashtag_errors_hd: "m \<in> set (hashtag_errors ti) \<Longrightarrow> take 1 m = ''H''"
  by (auto simp: hashtag_errors_def empty_hashtag_error_def spaces_error_def split: if_splits)

lemma hashtag_warnings_hd: "m \<in> set (hashtag_warnings ti) \<Longrightarrow> take 1 m = ''H''"
  by (auto simp: hashtag_warnings_def long_hashtag_warning_def split: if_splits)

lemma too_many_not_per_tag:
  "too_many_hashtags_error spec n \<notin> set (concat (map hashtag_errors xs))"
proof
  assume "too_many_hashtags_error spec n \<in> set (concat (map hashtag_errors xs))"
  then obtain ti where "too_many_hashtags_error spec n \<in> set (hashtag_errors ti)"
    by auto
  then have "take 1 (too_many_hashtags_error spec n) = ''H''"
    by (rule hashtag_errors_hd)
  then show False
    by (simp add: too_many_hashtags_error_def)
qed

lemma over_recommended_not_per_tag:
  "over_recommended_warning spec n \<notin> set (concat (map hashtag_warnings xs))"
proof
  assume "over_recommended_warning spec n \<in> set (concat (map hashtag_warnings xs))"
  then obtain ti where "over_recommended_warning spec n \<in> set (hashtag_warnings ti)"
    by auto
  then have "take 1 (over_recommended_warning spec n) = ''H''"
    by (rule hashtag_warnings_hd)
  then show False
    by (simp add: over_recommended_warning_def)
qed

lemma over_recommended_not_no_hashtags:
  "over_recommended_warning spec n \<noteq> no_hashtags_warning spec'"
  by (simp add: over_recommended_warning_def no_hashtags_warning_def)

lemma recommended_le_max:
  assumes "map_of PLATFORM_SPECS key = Some spec"
  shows "hashtags_recommended (spec_hashtags spec) \<le> hashtags_max (spec_hashtags spec)"
  using supported_cases [OF assms]
  by (auto simp: instagram_def twitter_def facebook_def tiktok_def linkedin_def)

text \<open>
  C6: for every supported platform \<open>p\<close> and hashtag list \<open>h\<close>, \<open>validateHashtags\<close>
  returns a result whose errors hold the over-limit error exactly when
  \<open>length h > max\<close> and whose warnings hold the over-recommended warning exactly when
  \<open>length h > recommended\<close>; above \<open>max\<close> both are there, the warning is not
  suppressed by the error.
\<close>

theorem hashtag_count_checks:
  assumes "map_of PLATFORM_SPECS (toLowerCase p) = Some spec"
  shows "\<exists>r. validateHashtags p h = Inr r
     \<and> (too_many_hashtags_error spec (length h) \<in> set (errors r)
          \<longleftrightarrow> length h > hashtags_max (spec_hashtags spec))
     \<and> (over_recommended_warning spec (length h) \<in> set (warnings r)
          \<longleftrightarrow> length h > hashtags_recommended (spec_hashtags spec))
     \<and> (length h > hashtags_max (spec_hashtags spec) \<longrightarrow>
          too_many_hashtags_error spec (length h) \<in> set (errors r)
          \<and> over_recommended_warning spec (length h) \<in> set (warnings r))"
proof -
  let ?r = "projr (validateHashtags p h)"
  have r: "validateHashtags p h = Inr ?r"
    by (simp add: validateHashtags_supported [OF assms])
  have e: "too_many_hashtags_error spec (length h) \<in> set (errors ?r)
          \<longleftrightarrow> length h > hashtags_max (spec_hashtags spec)"
    using too_many_not_per_tag [of spec "length h" "zip h [0..<length h]"]
    by (simp add: validateHashtags_supported [OF assms])
  have w: "over_recommended_warning spec (length h) \<in> set (warnings ?r)
          \<longleftrightarrow> length h > hashtags_recommended (spec_hashtags spec)"
    using over_recommended_not_per_tag [of spec "length h" "zip h [0..<length h]"]
      over_recommended_not_no_hashtags [of spec "length h" spec]
    by (simp add: validateHashtags_supported [OF assms])
  from r e w recommended_le_max [OF assms] show ?thesis
    by (intro exI [of _ ?r]) auto
qed


theorem hashtag_count_checks_witness:
  "map_of PLATFORM_SPECS (toLowerCase ''instagram'') = Some instagram
   \<and> length [''#a'', ''#b'', ''#c'', ''#d'', ''#e'', ''#f''] > hashtags_max (spec_hashtags instagram)
   \<and> (\<exists>r. validateHashtags ''instagram'' [''#a'', ''#b'', ''#c'', ''#d'', ''#e'', ''#f''] = Inr r
          \<and> too_many_hashtags_error instagram 6 \<in> set (errors r)
          \<and> over_recommended_warning instagram 6 \<in> set (warnings r))"
proof -
  have h: "map_of PLATFORM_SPECS (toLowerCase ''instagram'') = Some instagram"
    by (simp add: PLATFORM_SPECS_def toLowerCase_def toLowerCase_char_def)
  have m: "hashtags_max (spec_hashtags instagram) = 5"
    by (simp add: instagram_def)
  have l: "length [''#a'', ''#b'', ''#c'', ''#d'', ''#e'', ''#f''] = 6"
    by simp
  from hashtag_count_checks [OF h, of "[''#a'', ''#b'', ''#c'', ''#d'', ''#e'', ''#f'']"]
  obtain r where "validateHashtags ''instagram'' [''#a'', ''#b'', ''#c'', ''#d'', ''#e'', ''#f''] = Inr r"
    and "too_many_hashtags_error instagram 6 \<in> set (errors r)"
    and "over_recommended_warning instagram 6 \<in> set (warnings r)"
    unfolding l m by auto
  with h show ?thesis
    unfolding l m by auto
qed

lemma strip_leading_hash_plain: "take 1 t \<noteq> ''#'' \<Longrightarrow> strip_leading_hash t = t"
  by (cases t) auto

lemma hashtag_errors_prefixed:
  assumes "take 1 t \<noteq> ''#''"
  shows "list_all2 same_up_to_tag (hashtag_errors (t, i)) (hashtag_errors (CHR ''#'' # t, i))"
  using assms
  by (simp add: hashtag_errors_def strip_leading_hash_plain same_up_to_tag.same
      same_up_to_tag.spaces)

lemma hashtag_warnings_prefixed:
  assumes "take 1 t \<noteq> ''#''"
  shows "list_all2 same_up_to_tag (hashtag_warnings (t, i)) (hashtag_warnings (CHR ''#'' # t, i))"
  using assms
  by (simp add: hashtag_warnings_def strip_leading_hash_plain same_up_to_tag.long)

lemma list_all2_concat:
  "list_all2 (list_all2 R) xss yss \<Longrightarrow> list_all2 R (concat xss) (concat yss)"
  by (induction xss yss rule: list_all2_induct) (auto intro: list_all2_appendI)

lemma per_tag_prefixed:
  assumes "\<forall>t \<in> set tags. take 1 t \<noteq> ''#''"
  shows "list_all2 same_up_to_tag
           (concat (map hashtag_errors (zip tags ns)))
           (concat (map hashtag_errors (zip (map ((#) (CHR ''#'')) tags) ns)))"
    and "list_all2 same_up_to_tag
           (concat (map hashtag_warnings (zip tags ns)))
           (concat (map hashtag_warnings (zip (map ((#) (CHR ''#'')) tags) ns)))"
proof -
  let ?f = "\<lambda>ti. (CHR ''#'' # fst ti, snd ti)"
  have z: "zip (map ((#) (CHR ''#'')) tags) ns = map ?f (zip tags ns)"
    by (simp add: zip_map1 case_prod_beta)
  have t: "take 1 (fst ti) \<noteq> ''#''" if "ti \<in> set (zip tags ns)" for ti
  proof -
    obtain a b where ti: "ti = (a, b)" by (cases ti)
    with that have "a \<in> set tags" by (auto dest: set_zip_leftD)
    with assms ti show ?thesis by simp
  qed
  have e: "list_all2 same_up_to_tag (hashtag_errors ti) (hashtag_errors (?f ti))"
    and w: "list_all2 same_up_to_tag (hashtag_warnings ti) (hashtag_warnings (?f ti))"
    if "ti \<in> set (zip tags ns)" for ti
    using hashtag_errors_prefixed [OF t [OF that], of "snd ti"]
      hashtag_warnings_prefixed [OF t [OF that], of "snd ti"]
    by simp_all
  show "list_all2 same_up_to_tag
           (concat (map hashtag_errors (zip tags ns)))
           (concat (map hashtag_errors (zip (map ((#) (CHR ''#'')) tags) ns)))"
    unfolding z
    by (rule list_all2_concat) (simp add: list_all2_map1 list_all2_map2 list_all2_same e)
  show "list_all2 same_up_to_tag
           (concat (map hashtag_warnings (zip tags ns)))
           (concat (map hashtag_warnings (zip (map ((#) (CHR ''#'')) tags) ns)))"
    unfolding z
    by (rule list_all2_concat) (simp add: list_all2_map1 list_all2_map2 list_all2_same w)
qed

lemma list_all2_refl_same: "list_all2 same_up_to_tag xs xs"
  by (simp add: list_all2_same same_up_to_tag.same)

text \<open>
  C7: for every supported platform and every list of tags none of which begins with
  \<open>#\<close>, validating the tags and validating them with a \<open>#\<close> put in front of each
  gives the same valid flag, the same stats, and errors and warnings that agree message
  by message up to the tag echoed in them.
\<close>

theorem hashtag_prefix_invariance:
  assumes "map_of PLATFORM_SPECS (toLowerCase p) = Some spec"
    and "\<forall>t \<in> set tags. take 1 t \<noteq> ''#''"
  shows "\<exists>r r'. validateHashtags p tags = Inr r
     \<and> validateHashtags p (map ((#) (CHR ''#'')) tags) = Inr r'
     \<and> valid r' = valid r
     \<and> list_all2 same_up_to_tag (errors r) (errors r')
     \<and> list_all2 same_up_to_tag (warnings r) (warnings r')
     \<and> stats r' = stats r"
proof -
  let ?tags' = "map ((#) (CHR ''#'')) tags"
  let ?ns = "[0..<length tags]"
  let ?r = "projr (validateHashtags p tags)" and ?r' = "projr (validateHashtags p ?tags')"
  note e = per_tag_prefixed(1) [OF assms(2), of ?ns]
  note w = per_tag_prefixed(2) [OF assms(2), of ?ns]
  have r: "validateHashtags p tags = Inr ?r" and r': "validateHashtags p ?tags' = Inr ?r'"
    by (simp_all add: validateHashtags_supported [OF assms(1)])
  have "concat (map hashtag_errors (zip ?tags' ?ns)) = []
        \<longleftrightarrow> concat (map hashtag_errors (zip tags ?ns)) = []"
    using list_all2_lengthD [OF e] by (metis length_0_conv)
  then have v: "valid ?r' = valid ?r"
    by (simp add: validateHashtags_supported [OF assms(1)])
  have es: "list_all2 same_up_to_tag (errors ?r) (errors ?r')"
    using e
    by (simp add: validateHashtags_supported [OF assms(1)] same_up_to_tag.same)
  have ws: "list_all2 same_up_to_tag (warnings ?r) (warnings ?r')"
    using w
    by (auto simp: validateHashtags_supported [OF assms(1)] same_up_to_tag.same
        intro!: list_all2_appendI)
  have s: "stats ?r' = stats ?r"
    by (simp add: validateHashtags_supported [OF assms(1)])
  from r r' v es ws s show ?thesis
    by blast
qed

theorem hashtag_prefix_invariance_witness:
  "map_of PLATFORM_SPECS (toLowerCase ''TikTok'') = Some tiktok
   \<and> take 1 ''a b'' \<noteq> ''#'' \<and> take 1 ''ok'' \<noteq> ''#''
   \<and> (\<exists>r r'. validateHashtags ''TikTok'' [''a b'', ''ok''] = Inr r
         \<and> validateHashtags ''TikTok'' [''#a b'', ''#ok''] = Inr r'
         \<and> valid r' = valid r
         \<and> list_all2 same_up_to_tag (errors r) (errors r')
         \<and> list_all2 same_up_to_tag (warnings r) (warnings r')
         \<and> stats r' = stats r)"
proof -
  have h: "map_of PLATFORM_SPECS (toLowerCase ''TikTok'') = Some tiktok"
    by (simp add: PLATFORM_SPECS_def toLowerCase_def toLowerCase_char_def)
  have t: "\<forall>t \<in> set [''a b'', ''ok'']. take 1 t \<noteq> ''#''"
    by simp
  show ?thesis
    using h hashtag_prefix_invariance [OF h t] by simp
qed

section \<open>Images and videos\<close>

lemma validateImage_supported:
  assumes "map_of PLATFORM_SPECS (toLowerCase platform) = Some spec"
  shows "validateImage platform width height fileSizeMB format =
     Inr \<lparr>valid =
            (replace_first ''JPEG'' ''JPG'' (toUpperCase format)
               \<in> set (image_formats (spec_images spec))
             \<and> \<not> num_gt fileSizeMB (number_of_nat (image_maxSizeMB (spec_images spec)))),
          errors =
            (if replace_first ''JPEG'' ''JPG'' (toUpperCase format)
                  \<notin> set (image_formats (spec_images spec))
             then [image_format_error spec] else [])
            @ (if num_gt fileSizeMB (number_of_nat (image_maxSizeMB (spec_images spec)))
               then [image_size_error spec fileSizeMB] else []),
          warnings =
            (if find (ratio_matches (num_div width height))
                  (image_dimensions (spec_images spec)) = None
             then [image_ratio_warning spec width height] else [])
            @ (if num_lt width
                    (num_mul (Math_min (map (\<lambda>d. number_of_nat (dim_width d))
                                          (image_dimensions (spec_images spec))))
                       (Finite (1 / 2)))
               then [small_width_warning spec width
                       (Math_min (map (\<lambda>d. number_of_nat (dim_width d))
                                    (image_dimensions (spec_images spec))))]
               else []),
          stats = [(Width, width), (Height, height), (FileSizeMB, fileSizeMB),
                   (MaxSizeMB, number_of_nat (image_maxSizeMB (spec_images spec)))]\<rparr>"
  using assms by (simp add: validateImage_def PLATFORM_SPECS_at_Spec Let_def)

lemma validateVideo_supported:
  assumes "map_of PLATFORM_SPECS (toLowerCase platform) = Some spec"
  shows "validateVideo platform width height durationSeconds fileSizeMB format =
     Inr \<lparr>valid =
            (toUpperCase format \<in> set (video_formats (spec_videos spec))
             \<and> \<not> num_gt fileSizeMB (number_of_nat (video_maxSizeMB (spec_videos spec)))
             \<and> \<not> num_gt durationSeconds
                    (number_of_nat (maxDurationSeconds (spec_videos spec)))),
          errors =
            (if toUpperCase format \<notin> set (video_formats (spec_videos spec))
             then [video_format_error spec] else [])
            @ (if num_gt fileSizeMB (number_of_nat (video_maxSizeMB (spec_videos spec)))
               then [video_size_error spec fileSizeMB] else [])
            @ (if num_gt durationSeconds
                    (number_of_nat (maxDurationSeconds (spec_videos spec)))
               then [video_duration_error spec durationSeconds] else []),
          warnings =
            (if num_lt durationSeconds (Finite 3)
             then [short_video_warning durationSeconds] else [])
            @ (if find (ratio_matches (num_div width height))
                    (video_dimensions (spec_videos spec)) = None
               then [video_ratio_warning spec width height] else [])
            @ (if toLowerCase platform = ''instagram'' \<and> num_gt durationSeconds (Finite 90)
               then [instagram_reels_warning] else [])
            @ (if toLowerCase platform = ''tiktok'' \<and> num_gt durationSeconds (Finite 60)
               then [tiktok_engagement_warning] else []),
          stats = [(Width, width), (Height, height),
                   (DurationSeconds, durationSeconds),
                   (MaxDurationSeconds,
                    number_of_nat (maxDurationSeconds (spec_videos spec))),
                   (FileSizeMB, fileSizeMB),
                   (MaxSizeMB, number_of_nat (video_maxSizeMB (spec_videos spec)))]\<rparr>"
  using assms by (simp add: validateVideo_def PLATFORM_SPECS_at_Spec Let_def)

lemma find_None_iff_no_match: "find P xs = None \<longleftrightarrow> \<not> (\<exists>x \<in> set xs. P x)"
  by (auto simp: find_None_iff)

lemma video_messages_distinct:
  "instagram_reels_warning \<noteq> short_video_warning d"
  "instagram_reels_warning \<noteq> video_ratio_warning spec w h"
  "instagram_reels_warning \<noteq> tiktok_engagement_warning"
  "tiktok_engagement_warning \<noteq> short_video_warning d"
  "tiktok_engagement_warning \<noteq> video_ratio_warning spec w h"
  "video_duration_error spec d \<noteq> video_format_error spec'"
  "video_duration_error spec d \<noteq> video_size_error spec' sz"
  "video_ratio_warning spec w h \<noteq> short_video_warning d"
  by (simp_all add: instagram_reels_warning_def short_video_warning_def video_ratio_warning_def
      tiktok_engagement_warning_def video_duration_error_def video_format_error_def
      video_size_error_def)

lemma image_messages_distinct:
  "image_ratio_warning spec w h \<noteq> small_width_warning spec' w' m"
  by (simp add: image_ratio_warning_def small_width_warning_def)


lemma instagram_key: "map_of PLATFORM_SPECS ''instagram'' = Some instagram"
  by (simp add: PLATFORM_SPECS_def)

lemma tiktok_key: "map_of PLATFORM_SPECS ''tiktok'' = Some tiktok"
  by (simp add: PLATFORM_SPECS_def)

lemma instagram_video_limit: "maxDurationSeconds (spec_videos instagram) = 900"
  by (simp add: instagram_def)

lemma tiktok_video_limit: "maxDurationSeconds (spec_videos tiktok) = 3600"
  by (simp add: tiktok_def)

text \<open>
  C8: on \<open>instagram\<close>, \<open>validateVideo\<close> returns a result that holds the in-app Reels
  warning exactly when \<open>durationSeconds > 90\<close> and the duration error exactly when
  \<open>durationSeconds > 900\<close>, so a duration above 90 and not above 900 gives the warning and
  no duration error; on \<open>tiktok\<close> the same holds with the engagement warning, 60 and 3600.
\<close>

theorem video_duration_warnings:
  "(toLowerCase p = ''instagram'' \<longrightarrow>
      (\<exists>r. validateVideo p w h d sz f = Inr r
         \<and> (instagram_reels_warning \<in> set (warnings r) \<longleftrightarrow> num_gt d (Finite 90))
         \<and> (video_duration_error instagram d \<in> set (errors r) \<longleftrightarrow> num_gt d (Finite 900))
         \<and> (num_gt d (Finite 90) \<and> \<not> num_gt d (Finite 900) \<longrightarrow>
              instagram_reels_warning \<in> set (warnings r)
              \<and> video_duration_error instagram d \<notin> set (errors r))))
   \<and> (toLowerCase p = ''tiktok'' \<longrightarrow>
      (\<exists>r. validateVideo p w h d sz f = Inr r
         \<and> (tiktok_engagement_warning \<in> set (warnings r) \<longleftrightarrow> num_gt d (Finite 60))
         \<and> (video_duration_error tiktok d \<in> set (errors r) \<longleftrightarrow> num_gt d (Finite 3600))
         \<and> (num_gt d (Finite 60) \<and> \<not> num_gt d (Finite 3600) \<longrightarrow>
              tiktok_engagement_warning \<in> set (warnings r)
              \<and> video_duration_error tiktok d \<notin> set (errors r))))"
proof (intro conjI impI)
  assume p: "toLowerCase p = ''instagram''"
  then have k: "map_of PLATFORM_SPECS (toLowerCase p) = Some instagram"
    by (simp add: instagram_key)
  let ?r = "projr (validateVideo p w h d sz f)"
  have r: "validateVideo p w h d sz f = Inr ?r"
    by (simp add: validateVideo_supported [OF k])
  have wn: "instagram_reels_warning \<in> set (warnings ?r) \<longleftrightarrow> num_gt d (Finite 90)"
    using video_messages_distinct(1) [of d] video_messages_distinct(2) [of instagram w h]
    by (simp add: validateVideo_supported [OF k] p)
  have er: "video_duration_error instagram d \<in> set (errors ?r) \<longleftrightarrow> num_gt d (Finite 900)"
    using video_messages_distinct(6) [of instagram d instagram]
      video_messages_distinct(7) [of instagram d instagram sz]
    by (simp add: validateVideo_supported [OF k] instagram_video_limit number_of_nat_def)
  from r wn er
  show "\<exists>r. validateVideo p w h d sz f = Inr r
         \<and> (instagram_reels_warning \<in> set (warnings r) \<longleftrightarrow> num_gt d (Finite 90))
         \<and> (video_duration_error instagram d \<in> set (errors r) \<longleftrightarrow> num_gt d (Finite 900))
         \<and> (num_gt d (Finite 90) \<and> \<not> num_gt d (Finite 900) \<longrightarrow>
              instagram_reels_warning \<in> set (warnings r)
              \<and> video_duration_error instagram d \<notin> set (errors r))"
    by (intro exI [of _ ?r]) simp
next
  assume p: "toLowerCase p = ''tiktok''"
  then have k: "map_of PLATFORM_SPECS (toLowerCase p) = Some tiktok"
    by (simp add: tiktok_key)
  let ?r = "projr (validateVideo p w h d sz f)"
  have r: "validateVideo p w h d sz f = Inr ?r"
    by (simp add: validateVideo_supported [OF k])
  have wn: "tiktok_engagement_warning \<in> set (warnings ?r) \<longleftrightarrow> num_gt d (Finite 60)"
    using video_messages_distinct(4) [of d] video_messages_distinct(5) [of tiktok w h]
    by (simp add: validateVideo_supported [OF k] p)
  have er: "video_duration_error tiktok d \<in> set (errors ?r) \<longleftrightarrow> num_gt d (Finite 3600)"
    using video_messages_distinct(6) [of tiktok d tiktok]
      video_messages_distinct(7) [of tiktok d tiktok sz]
    by (simp add: validateVideo_supported [OF k] tiktok_video_limit number_of_nat_def)
  from r wn er
  show "\<exists>r. validateVideo p w h d sz f = Inr r
         \<and> (tiktok_engagement_warning \<in> set (warnings r) \<longleftrightarrow> num_gt d (Finite 60))
         \<and> (video_duration_error tiktok d \<in> set (errors r) \<longleftrightarrow> num_gt d (Finite 3600))
         \<and> (num_gt d (Finite 60) \<and> \<not> num_gt d (Finite 3600) \<longrightarrow>
              tiktok_engagement_warning \<in> set (warnings r)
              \<and> video_duration_error tiktok d \<notin> set (errors r))"
    by (intro exI [of _ ?r]) simp
qed

theorem video_duration_warnings_witness:
  "toLowerCase ''Instagram'' = ''instagram''
   \<and> num_gt (Finite 900) (Finite 90) \<and> \<not> num_gt (Finite 900) (Finite 900)
   \<and> (\<exists>r. validateVideo ''Instagram'' (Finite 1080) (Finite 1920) (Finite 900) (Finite 10) ''mp4''
            = Inr r
         \<and> instagram_reels_warning \<in> set (warnings r)
         \<and> video_duration_error instagram (Finite 900) \<notin> set (errors r))
   \<and> toLowerCase ''TikTok'' = ''tiktok''
   \<and> num_gt (Finite 61) (Finite 60) \<and> \<not> num_gt (Finite 61) (Finite 3600)
   \<and> (\<exists>r. validateVideo ''TikTok'' (Finite 1080) (Finite 1920) (Finite 61) (Finite 10) ''mp4''
            = Inr r
         \<and> tiktok_engagement_warning \<in> set (warnings r)
         \<and> video_duration_error tiktok (Finite 61) \<notin> set (errors r))"
proof -
  have i: "toLowerCase ''Instagram'' = ''instagram''" and t: "toLowerCase ''TikTok'' = ''tiktok''"
    by (simp_all add: toLowerCase_def toLowerCase_char_def)
  have n: "num_gt (Finite 900) (Finite 90)" "\<not> num_gt (Finite 900) (Finite 900)"
    "num_gt (Finite 61) (Finite 60)" "\<not> num_gt (Finite 61) (Finite 3600)"
    by (simp_all add: num_gt_def num_lt_def)
  from video_duration_warnings
    [of "''Instagram''" "Finite 1080" "Finite 1920" "Finite 900" "Finite 10" "''mp4''"] i n
  have a: "\<exists>r. validateVideo ''Instagram'' (Finite 1080) (Finite 1920) (Finite 900) (Finite 10)
                 ''mp4'' = Inr r
         \<and> instagram_reels_warning \<in> set (warnings r)
         \<and> video_duration_error instagram (Finite 900) \<notin> set (errors r)"
    by auto
  from video_duration_warnings
    [of "''TikTok''" "Finite 1080" "Finite 1920" "Finite 61" "Finite 10" "''mp4''"] t n
  have b: "\<exists>r. validateVideo ''TikTok'' (Finite 1080) (Finite 1920) (Finite 61) (Finite 10)
                 ''mp4'' = Inr r
         \<and> tiktok_engagement_warning \<in> set (warnings r)
         \<and> video_duration_error tiktok (Finite 61) \<notin> set (errors r)"
    by auto
  from i t n a b show ?thesis
    by simp
qed


lemma num_lt_irrefl: "\<not> num_lt x x"
  by (simp add: num_lt_def)

text \<open>
  C5, as amended: an entry matches exactly when the double computed for
  \<open>Math.abs(width / height - entry.width / entry.height)\<close> is strictly below the double
  that \<open>0.05\<close> denotes, so a computed difference equal to that double does not match.
  For every supported platform, \<open>validateImage\<close> and \<open>validateVideo\<close> return a result
  that holds the aspect-ratio warning, which lists every recommended entry, exactly when
  no entry matches; the errors and the valid flag do not depend on width and height.
\<close>

theorem aspect_ratio_tolerance:
  assumes "map_of PLATFORM_SPECS (toLowerCase p) = Some spec"
  shows "(ratio_matches (num_div w h) e \<longleftrightarrow>
            num_lt (Math_abs (num_sub (num_div w h)
                      (num_div (number_of_nat (dim_width e)) (number_of_nat (dim_height e)))))
              (fl (5 / 100)))
     \<and> (Math_abs (num_sub (num_div w h)
            (num_div (number_of_nat (dim_width e)) (number_of_nat (dim_height e))))
          = fl (5 / 100) \<longrightarrow> \<not> ratio_matches (num_div w h) e)
     \<and> (\<exists>ri ri' rv rv'.
           validateImage p w h sz f = Inr ri
         \<and> validateImage p w' h' sz f = Inr ri'
         \<and> validateVideo p w h d sz f = Inr rv
         \<and> validateVideo p w' h' d sz f = Inr rv'
         \<and> (image_ratio_warning spec w h \<in> set (warnings ri)
              \<longleftrightarrow> \<not> (\<exists>e \<in> set (image_dimensions (spec_images spec)).
                        ratio_matches (num_div w h) e))
         \<and> (video_ratio_warning spec w h \<in> set (warnings rv)
              \<longleftrightarrow> \<not> (\<exists>e \<in> set (video_dimensions (spec_videos spec)).
                        ratio_matches (num_div w h) e))
         \<and> errors ri = errors ri' \<and> valid ri = valid ri'
         \<and> errors rv = errors rv' \<and> valid rv = valid rv')"
proof (intro conjI impI)
  show "ratio_matches (num_div w h) e \<longleftrightarrow>
            num_lt (Math_abs (num_sub (num_div w h)
                      (num_div (number_of_nat (dim_width e)) (number_of_nat (dim_height e)))))
              (fl (5 / 100))"
    by (simp add: ratio_matches_def)
  show "\<not> ratio_matches (num_div w h) e"
    if "Math_abs (num_sub (num_div w h)
            (num_div (number_of_nat (dim_width e)) (number_of_nat (dim_height e))))
          = fl (5 / 100)"
    using that by (simp add: ratio_matches_def num_lt_irrefl)
  let ?ri = "projr (validateImage p w h sz f)" and ?ri' = "projr (validateImage p w' h' sz f)"
  let ?rv = "projr (validateVideo p w h d sz f)" and ?rv' = "projr (validateVideo p w' h' d sz f)"
  have r: "validateImage p w h sz f = Inr ?ri" "validateImage p w' h' sz f = Inr ?ri'"
    "validateVideo p w h d sz f = Inr ?rv" "validateVideo p w' h' d sz f = Inr ?rv'"
    by (simp_all add: validateImage_supported [OF assms] validateVideo_supported [OF assms])
  have wi: "image_ratio_warning spec w h \<in> set (warnings ?ri)
              \<longleftrightarrow> \<not> (\<exists>e \<in> set (image_dimensions (spec_images spec)).
                        ratio_matches (num_div w h) e)"
    using image_messages_distinct
    by (simp add: validateImage_supported [OF assms] find_None_iff_no_match)
  have wv: "video_ratio_warning spec w h \<in> set (warnings ?rv)
              \<longleftrightarrow> \<not> (\<exists>e \<in> set (video_dimensions (spec_videos spec)).
                        ratio_matches (num_div w h) e)"
    using video_messages_distinct(2) [of spec w h] video_messages_distinct(5) [of spec w h]
      video_messages_distinct(8) [of spec w h d]
    by (auto simp: validateVideo_supported [OF assms] find_None_iff_no_match)
  have e: "errors ?ri = errors ?ri'" "valid ?ri = valid ?ri'"
    "errors ?rv = errors ?rv'" "valid ?rv = valid ?rv'"
    by (simp_all add: validateImage_supported [OF assms] validateVideo_supported [OF assms])
  from r wi wv e
  show "\<exists>ri ri' rv rv'.
           validateImage p w h sz f = Inr ri
         \<and> validateImage p w' h' sz f = Inr ri'
         \<and> validateVideo p w h d sz f = Inr rv
         \<and> validateVideo p w' h' d sz f = Inr rv'
         \<and> (image_ratio_warning spec w h \<in> set (warnings ri)
              \<longleftrightarrow> \<not> (\<exists>e \<in> set (image_dimensions (spec_images spec)).
                        ratio_matches (num_div w h) e))
         \<and> (video_ratio_warning spec w h \<in> set (warnings rv)
              \<longleftrightarrow> \<not> (\<exists>e \<in> set (video_dimensions (spec_videos spec)).
                        ratio_matches (num_div w h) e))
         \<and> errors ri = errors ri' \<and> valid ri = valid ri'
         \<and> errors rv = errors rv' \<and> valid rv = valid rv'"
    by blast
qed

subsection \<open>Doubles at concrete inputs\<close>

lemma floor_rat_numeral_div [simp]:
  "\<lfloor>numeral a / numeral b :: rat\<rfloor> = numeral a div numeral b"
  by (metis floor_divide_of_int_eq of_int_numeral)

lemma ceiling_rat_numeral_div [simp]:
  "\<lceil>numeral a / numeral b :: rat\<rceil> = - (- numeral a div numeral b)"
  by (metis ceiling_def floor_divide_of_int_eq minus_divide_left of_int_minus of_int_numeral)

lemma fl_17_20: "fl (17 / 20) = Finite (7656119366529843 / 9007199254740992)"
  apply (simp only: fl_def Let_def)
  apply (simp add: ilog2_def bit_length.simps)
  apply (simp add: pow2_def round_half_even_def Let_def)
  done

lemma fl_4_5: "fl (4 / 5) = Finite (3602879701896397 / 4503599627370496)"
  apply (simp only: fl_def Let_def)
  apply (simp add: ilog2_def bit_length.simps)
  apply (simp add: pow2_def round_half_even_def Let_def)
  done

lemma fl_1_20: "fl (1 / 20) = Finite (3602879701896397 / 72057594037927936)"
  apply (simp only: fl_def Let_def)
  apply (simp add: ilog2_def bit_length.simps)
  apply (simp add: pow2_def round_half_even_def Let_def)
  done

lemma fl_1: "fl 1 = Finite 1"
  apply (simp only: fl_def Let_def)
  apply (simp add: ilog2_def bit_length.simps)
  apply (simp add: pow2_def round_half_even_def Let_def)
  done

lemma fl_540: "fl 540 = Finite 540"
  apply (simp only: fl_def Let_def)
  apply (simp add: ilog2_def bit_length.simps)
  apply (simp add: pow2_def round_half_even_def Let_def)
  done

lemma fl_diff_portrait:
  "fl (450359962737049 / 9007199254740992) = Finite (450359962737049 / 9007199254740992)"
  apply (simp only: fl_def Let_def)
  apply (simp add: ilog2_def bit_length.simps)
  apply (simp add: pow2_def round_half_even_def Let_def)
  done

lemma fl_diff_square:
  "fl (- (1351079888211149 / 9007199254740992)) = Finite (- (1351079888211149 / 9007199254740992))"
  apply (simp only: fl_def Let_def)
  apply (simp add: ilog2_def bit_length.simps)
  apply (simp add: pow2_def round_half_even_def Let_def)
  done

text \<open>918 by 1080 against the entries Square and Portrait of Instagram.\<close>

lemma ratio_918_1080:
  "num_div (Finite 918) (Finite 1080) = Finite (7656119366529843 / 9007199254740992)"
  by (simp add: num_div_def fl_17_20)

lemma square_no_match:
  "\<not> ratio_matches (Finite (7656119366529843 / 9007199254740992))
       \<lparr>dim_name = ''Square'', dim_width = 1080, dim_height = 1080, dim_aspectRatio = ''1:1''\<rparr>"
  by (simp add: ratio_matches_def number_of_nat_def num_div_def num_sub_def num_lt_def
      fl_1 fl_diff_square fl_1_20)

lemma portrait_match:
  "ratio_matches (Finite (7656119366529843 / 9007199254740992))
       \<lparr>dim_name = ''Portrait'', dim_width = 1080, dim_height = 1350, dim_aspectRatio = ''4:5''\<rparr>"
  by (simp add: ratio_matches_def number_of_nat_def num_div_def num_sub_def num_lt_def
      fl_4_5 fl_diff_portrait fl_1_20)

lemma instagram_min_width:
  "Math_min (map (\<lambda>d. number_of_nat (dim_width d)) (image_dimensions (spec_images instagram)))
     = Finite 1080"
  by (simp add: instagram_def Math_min_def num_min_def num_lt_def number_of_nat_def)

text \<open>
  C5, as stated, at an image of 918 by 1080 on Instagram: the exact differences to the three
  recommended ratios are 0.15, 0.05 and 0.2875, so read over the rationals no entry is
  strictly within 0.05 and the warning is due. The doubles computed for \<open>918 / 1080\<close>
  and \<open>1080 / 1350\<close> differ by less than the double \<open>0.05\<close>, the entry Portrait
  matches, and the result has no warning.
\<close>

theorem aspect_ratio_exact_boundary:
  "find (exact_ratio_matches 918 1080) (image_dimensions (spec_images instagram)) = None
   \<and> \<bar>(918 :: rat) / 1080 - 1080 / 1350\<bar> = 5 / 100
   \<and> validateImage ''instagram'' (Finite 918) (Finite 1080) (Finite 1) ''JPG'' =
       Inr \<lparr>valid = True, errors = [], warnings = [],
            stats = [(Width, Finite 918), (Height, Finite 1080), (FileSizeMB, Finite 1),
                     (MaxSizeMB, Finite 15)]\<rparr>"
proof -
  have k: "map_of PLATFORM_SPECS (toLowerCase ''instagram'') = Some instagram"
    by (simp add: PLATFORM_SPECS_def toLowerCase_def toLowerCase_char_def)
  have x: "find (exact_ratio_matches 918 1080) (image_dimensions (spec_images instagram)) = None"
    by (simp add: exact_ratio_matches_def instagram_def)
  have f: "replace_first ''JPEG'' ''JPG'' (toUpperCase ''JPG'')
             \<in> set (image_formats (spec_images instagram))"
    by (simp add: toUpperCase_def toUpperCase_char_def instagram_def)
  have s: "\<not> num_gt (Finite 1) (number_of_nat (image_maxSizeMB (spec_images instagram)))"
    "number_of_nat (image_maxSizeMB (spec_images instagram)) = Finite 15"
    by (simp_all add: instagram_def num_gt_def num_lt_def number_of_nat_def)
  have m: "find (ratio_matches (num_div (Finite 918) (Finite 1080)))
             (image_dimensions (spec_images instagram)) \<noteq> None"
    using square_no_match portrait_match by (simp add: ratio_918_1080 instagram_def)
  have w: "\<not> num_lt (Finite 918) (num_mul (Finite 1080) (Finite (1 / 2)))"
    by (simp add: num_mul_def fl_540 num_lt_def)
  from x f s m w show ?thesis
    by (simp add: validateImage_supported [OF k] instagram_min_width)
qed


lemma fl_21_20: "fl (21 / 20) = Finite (4728779608739021 / 4503599627370496)"
  apply (simp only: fl_def Let_def)
  apply (simp add: ilog2_def bit_length.simps)
  apply (simp add: pow2_def round_half_even_def Let_def)
  done

lemma fl_diff_above_square:
  "fl (225179981368525 / 4503599627370496) = Finite (225179981368525 / 4503599627370496)"
  apply (simp only: fl_def Let_def)
  apply (simp add: ilog2_def bit_length.simps)
  apply (simp add: pow2_def round_half_even_def Let_def)
  done

text \<open>
  The other side of the boundary: 1134 by 1080 is at exactly 0.05 from the ratio of Square
  over the rationals, and the computed difference is above the double \<open>0.05\<close>.
\<close>

lemma square_boundary_no_match:
  "\<bar>(1134 :: rat) / 1080 - 1080 / 1080\<bar> = 5 / 100
   \<and> \<not> ratio_matches (num_div (Finite 1134) (Finite 1080))
       \<lparr>dim_name = ''Square'', dim_width = 1080, dim_height = 1080, dim_aspectRatio = ''1:1''\<rparr>"
  by (simp add: ratio_matches_def number_of_nat_def num_div_def num_sub_def num_lt_def
      fl_1 fl_21_20 fl_diff_above_square fl_1_20)

lemma fl_neg_1_20:
  "fl (- (3602879701896397 / 72057594037927936)) = Finite (- (3602879701896397 / 72057594037927936))"
  apply (simp only: fl_def Let_def)
  apply (simp add: ilog2_def bit_length.simps)
  apply (simp add: pow2_def round_half_even_def Let_def)
  done

lemma fl_9_16: "fl (9 / 16) = Finite (9 / 16)"
  apply (simp only: fl_def Let_def)
  apply (simp add: ilog2_def bit_length.simps)
  apply (simp add: pow2_def round_half_even_def Let_def)
  done

lemma fl_7_16: "fl (7 / 16) = Finite (7 / 16)"
  apply (simp only: fl_def Let_def)
  apply (simp add: ilog2_def bit_length.simps)
  apply (simp add: pow2_def round_half_even_def Let_def)
  done

theorem aspect_ratio_tolerance_witness:
  "map_of PLATFORM_SPECS (toLowerCase ''tiktok'') = Some tiktok
   \<and> Math_abs (num_sub (num_div (Finite 0) (Finite 1))
                 (num_div (number_of_nat 1) (number_of_nat 20))) = fl (5 / 100)
   \<and> \<not> ratio_matches (num_div (Finite 0) (Finite 1))
         \<lparr>dim_name = ''Strip'', dim_width = 1, dim_height = 20, dim_aspectRatio = ''1:20''\<rparr>
   \<and> \<not> (\<exists>e \<in> set (image_dimensions (spec_images tiktok)).
           ratio_matches (num_div (Finite 1080) (Finite 1080)) e)
   \<and> \<not> (\<exists>e \<in> set (video_dimensions (spec_videos tiktok)).
           ratio_matches (num_div (Finite 1080) (Finite 1080)) e)
   \<and> (\<exists>ri rv.
         validateImage ''tiktok'' (Finite 1080) (Finite 1080) (Finite 1) ''png'' = Inr ri
       \<and> validateVideo ''tiktok'' (Finite 1080) (Finite 1080) (Finite 30) (Finite 1) ''png'' = Inr rv
       \<and> image_ratio_warning tiktok (Finite 1080) (Finite 1080) \<in> set (warnings ri)
       \<and> video_ratio_warning tiktok (Finite 1080) (Finite 1080) \<in> set (warnings rv))"
proof -
  have k: "map_of PLATFORM_SPECS (toLowerCase ''tiktok'') = Some tiktok"
    by (simp add: PLATFORM_SPECS_def toLowerCase_def toLowerCase_char_def)
  have d: "Math_abs (num_sub (num_div (Finite 0) (Finite 1))
                 (num_div (number_of_nat 1) (number_of_nat 20))) = fl (5 / 100)"
    by (simp add: num_div_def number_of_nat_def signed_zero_def fl_1_20 num_sub_def fl_neg_1_20)
  have n: "\<not> ratio_matches (num_div (Finite 1080) (Finite 1080))
       \<lparr>dim_name = nm, dim_width = 1080, dim_height = 1920, dim_aspectRatio = ''9:16''\<rparr>" for nm
    by (simp add: ratio_matches_def number_of_nat_def num_div_def num_sub_def num_lt_def
        fl_1 fl_9_16 fl_7_16 fl_1_20)
  have i: "\<not> (\<exists>e \<in> set (image_dimensions (spec_images tiktok)).
           ratio_matches (num_div (Finite 1080) (Finite 1080)) e)"
    and v: "\<not> (\<exists>e \<in> set (video_dimensions (spec_videos tiktok)).
           ratio_matches (num_div (Finite 1080) (Finite 1080)) e)"
    using n by (simp_all add: tiktok_def)
  note t = aspect_ratio_tolerance [OF k]
  let ?strip = "\<lparr>dim_name = ''Strip'', dim_width = 1, dim_height = 20, dim_aspectRatio = ''1:20''\<rparr>"
  have d': "Math_abs (num_sub (num_div (Finite 0) (Finite 1))
                 (num_div (number_of_nat (dim_width ?strip)) (number_of_nat (dim_height ?strip))))
             = fl (5 / 100)"
    using d by simp
  from t [of "Finite 0" "Finite 1" ?strip] d'
  have s: "\<not> ratio_matches (num_div (Finite 0) (Finite 1)) ?strip"
    by blast
  from t [of "Finite 1080" "Finite 1080" _ "Finite 1" "''png''" "Finite 1080" "Finite 1080"
      "Finite 30"] i v
  have r: "\<exists>ri rv.
         validateImage ''tiktok'' (Finite 1080) (Finite 1080) (Finite 1) ''png'' = Inr ri
       \<and> validateVideo ''tiktok'' (Finite 1080) (Finite 1080) (Finite 30) (Finite 1) ''png'' = Inr rv
       \<and> image_ratio_warning tiktok (Finite 1080) (Finite 1080) \<in> set (warnings ri)
       \<and> video_ratio_warning tiktok (Finite 1080) (Finite 1080) \<in> set (warnings rv)"
    by blast
  from k d s i v r show ?thesis
    by blast
qed

section \<open>Post\<close>

lemma map_of_set_property: "map_of (set_property obj kv) = (map_of obj)(fst kv \<mapsto> snd kv)"
  by (induction obj) (auto simp: fun_eq_iff)

text \<open>An object has each property once; on such a source the spread is the map override.\<close>

lemma map_of_spread:
  "distinct (map fst source) \<Longrightarrow> map_of (spread target source) = map_of target ++ map_of source"
  unfolding spread_def
proof (induction source arbitrary: target)
  case Nil
  show ?case by simp
next
  case (Cons kv source)
  obtain k v where kv: "kv = (k, v)" by (cases kv)
  from Cons.prems have k: "map_of source k = None" and d: "distinct (map fst source)"
    by (simp_all add: kv map_of_eq_None_iff)
  have "map_of (foldl set_property target (kv # source))
          = map_of (set_property target kv) ++ map_of source"
    by (simp add: Cons.IH [OF d])
  also have "\<dots> = map_of target ++ map_of (kv # source)"
    using k by (auto simp: map_of_set_property kv fun_eq_iff map_add_def split: option.splits)
  finally show ?case .
qed

lemma validateTextContent_stats_distinct:
  "validateTextContent p c = Inr t \<Longrightarrow> distinct (map fst (stats t))"
  by (cases "PLATFORM_SPECS_at (toLowerCase p)")
    (auto simp: validateTextContent_def unknown_platform_def Let_def)

lemma validateHashtags_stats_distinct:
  "validateHashtags p h = Inr g \<Longrightarrow> distinct (map fst (stats g))"
  by (cases "PLATFORM_SPECS_at (toLowerCase p)")
    (auto simp: validateHashtags_def unknown_platform_def Let_def split: prod.splits)

text \<open>
  C4: whenever the text check and the hashtag check return results \<open>t\<close> and \<open>g\<close>,
  \<open>validatePost\<close> returns a result whose valid flag is \<open>valid t \<and> valid g\<close>, whose
  errors are those of \<open>t\<close> followed by those of \<open>g\<close> (so the violations of both checks are
  all there), whose warnings likewise, and whose stats are those of \<open>t\<close> overridden by
  those of \<open>g\<close>.
\<close>

theorem validatePost_composition:
  assumes "validateTextContent p c = Inr t" and "validateHashtags p h = Inr g"
  shows "\<exists>r. validatePost p c h = Inr r
     \<and> valid r = (valid t \<and> valid g)
     \<and> errors r = errors t @ errors g
     \<and> warnings r = warnings t @ warnings g
     \<and> map_of (stats r) = map_of (stats t) ++ map_of (stats g)"
  using assms validateTextContent_stats_distinct [OF assms(1)]
    validateHashtags_stats_distinct [OF assms(2)]
  by (simp add: validatePost_def map_of_spread)


theorem validatePost_composition_witness:
  "validateTextContent ''twitter'' (replicate 281 (CHR ''A'')) =
     Inr \<lparr>valid = False, errors = [char_limit_error twitter 281], warnings = [],
          stats = [(CharCount, Finite 281), (CharLimit, Finite 280)]\<rparr>
   \<and> validateHashtags ''twitter'' [''a b''] =
     Inr \<lparr>valid = False, errors = [spaces_error ''a b''], warnings = [],
          stats = [(HashtagCount, Finite 1), (HashtagLimit, Finite 999)]\<rparr>
   \<and> (\<exists>r. validatePost ''twitter'' (replicate 281 (CHR ''A'')) [''a b''] = Inr r
          \<and> \<not> valid r
          \<and> errors r = [char_limit_error twitter 281, spaces_error ''a b'']
          \<and> warnings r = []
          \<and> map_of (stats r) HashtagLimit = Some (Finite 999)
          \<and> map_of (stats r) CharLimit = Some (Finite 280))"
proof -
  have k: "map_of PLATFORM_SPECS (toLowerCase ''twitter'') = Some twitter"
    by (simp add: PLATFORM_SPECS_def toLowerCase_def toLowerCase_char_def)
  have t: "validateTextContent ''twitter'' (replicate 281 (CHR ''A'')) =
     Inr \<lparr>valid = False, errors = [char_limit_error twitter 281], warnings = [],
          stats = [(CharCount, Finite 281), (CharLimit, Finite 280)]\<rparr>"
    by (simp add: validateTextContent_supported [OF k] twitter_def number_of_nat_def)
  have g: "validateHashtags ''twitter'' [''a b''] =
     Inr \<lparr>valid = False, errors = [spaces_error ''a b''], warnings = [],
          stats = [(HashtagCount, Finite 1), (HashtagLimit, Finite 999)]\<rparr>"
    by (simp add: validateHashtags_supported [OF k] twitter_def number_of_nat_def
        hashtag_errors_def hashtag_warnings_def includes_space_def toLowerCase_def
        toLowerCase_char_def)
  from validatePost_composition [OF t g] t g show ?thesis
    by (auto simp: map_add_def)
qed

section \<open>The valid flag\<close>

lemma validateTextContent_valid:
  "validateTextContent p c = Inr r \<Longrightarrow> valid r \<longleftrightarrow> errors r = []"
  by (cases "PLATFORM_SPECS_at (toLowerCase p)")
    (auto simp: validateTextContent_def unknown_platform_def Let_def)

lemma validateHashtags_valid:
  "validateHashtags p h = Inr r \<Longrightarrow> valid r \<longleftrightarrow> errors r = []"
  by (cases "PLATFORM_SPECS_at (toLowerCase p)")
    (auto simp: validateHashtags_def unknown_platform_def Let_def split: prod.splits)

lemma validateImage_valid:
  "validateImage p w ht sz f = Inr r \<Longrightarrow> valid r \<longleftrightarrow> errors r = []"
  by (cases "PLATFORM_SPECS_at (toLowerCase p)")
    (auto simp: validateImage_def unknown_platform_def Let_def)

lemma validateVideo_valid:
  "validateVideo p w ht d sz f = Inr r \<Longrightarrow> valid r \<longleftrightarrow> errors r = []"
  by (cases "PLATFORM_SPECS_at (toLowerCase p)")
    (auto simp: validateVideo_def unknown_platform_def Let_def)

lemma validatePost_valid:
  assumes "validatePost p c h = Inr r"
  shows "valid r \<longleftrightarrow> errors r = []"
proof -
  from assms obtain t g where t: "validateTextContent p c = Inr t"
    and g: "validateHashtags p h = Inr g"
    and r: "r = \<lparr>valid = (valid t \<and> valid g), errors = errors t @ errors g,
                 warnings = warnings t @ warnings g,
                 stats = spread (spread [] (stats t)) (stats g)\<rparr>"
    by (auto simp: validatePost_def split: sum.splits)
  from validateTextContent_valid [OF t] validateHashtags_valid [OF g] show ?thesis
    by (simp add: r)
qed

lemma returned_valid:
  assumes "validateTextContent p c = Inr r \<or> validateHashtags p h = Inr r
     \<or> validateImage p w ht sz f = Inr r \<or> validateVideo p w ht d sz f = Inr r
     \<or> validatePost p c h = Inr r"
  shows "valid r \<longleftrightarrow> errors r = []"
  using assms
  by (auto dest: validateTextContent_valid validateHashtags_valid validateImage_valid
      validateVideo_valid validatePost_valid)

text \<open>
  C1: a result returned by any of the five validators, on any platform string and any
  input, is valid exactly when its errors are empty; so two returned results with the
  same errors have the same valid flag, whatever their warnings are.
\<close>

theorem valid_iff_no_errors:
  assumes "validateTextContent p c = Inr r \<or> validateHashtags p h = Inr r
     \<or> validateImage p w ht sz f = Inr r \<or> validateVideo p w ht d sz f = Inr r
     \<or> validatePost p c h = Inr r"
    and "validateTextContent p' c' = Inr r' \<or> validateHashtags p' h' = Inr r'
     \<or> validateImage p' w' ht' sz' f' = Inr r' \<or> validateVideo p' w' ht' d' sz' f' = Inr r'
     \<or> validatePost p' c' h' = Inr r'"
  shows "(valid r \<longleftrightarrow> errors r = []) \<and> (errors r = errors r' \<longrightarrow> valid r = valid r')"
  using returned_valid [OF assms(1)] returned_valid [OF assms(2)] by simp

theorem valid_iff_no_errors_witness:
  "validateTextContent ''twitter'' ''hello'' =
     Inr \<lparr>valid = True, errors = [], warnings = [very_short_warning (length ''hello'')],
          stats = [(CharCount, Finite 5), (CharLimit, Finite 280)]\<rparr>
   \<and> validatePost ''twitter'' ''hello world'' [''tag''] =
     Inr \<lparr>valid = True, errors = [], warnings = [],
          stats = [(CharCount, Finite 11), (CharLimit, Finite 280),
                   (HashtagCount, Finite 1), (HashtagLimit, Finite 999)]\<rparr>
   \<and> errors (projr (validateTextContent ''twitter'' ''hello''))
       = errors (projr (validatePost ''twitter'' ''hello world'' [''tag'']))
   \<and> warnings (projr (validateTextContent ''twitter'' ''hello''))
       \<noteq> warnings (projr (validatePost ''twitter'' ''hello world'' [''tag'']))
   \<and> valid (projr (validateTextContent ''twitter'' ''hello''))
       = valid (projr (validatePost ''twitter'' ''hello world'' [''tag'']))
   \<and> (valid (projr (validateTextContent ''twitter'' ''hello''))
        \<longleftrightarrow> errors (projr (validateTextContent ''twitter'' ''hello'')) = [])"
proof -
  have k: "map_of PLATFORM_SPECS (toLowerCase ''twitter'') = Some twitter"
    by (simp add: PLATFORM_SPECS_def toLowerCase_def toLowerCase_char_def)
  have a: "validateTextContent ''twitter'' ''hello'' =
     Inr \<lparr>valid = True, errors = [], warnings = [very_short_warning (length ''hello'')],
          stats = [(CharCount, Finite 5), (CharLimit, Finite 280)]\<rparr>"
    by (simp add: validateTextContent_supported [OF k] twitter_def number_of_nat_def)
  have t: "validateTextContent ''twitter'' ''hello world'' =
     Inr \<lparr>valid = True, errors = [], warnings = [],
          stats = [(CharCount, Finite 11), (CharLimit, Finite 280)]\<rparr>"
    by (simp add: validateTextContent_supported [OF k] twitter_def number_of_nat_def)
  have g: "validateHashtags ''twitter'' [''tag''] =
     Inr \<lparr>valid = True, errors = [], warnings = [],
          stats = [(HashtagCount, Finite 1), (HashtagLimit, Finite 999)]\<rparr>"
    by (simp add: validateHashtags_supported [OF k] twitter_def number_of_nat_def
        hashtag_errors_def hashtag_warnings_def includes_space_def toLowerCase_def
        toLowerCase_char_def)
  have b: "validatePost ''twitter'' ''hello world'' [''tag''] =
     Inr \<lparr>valid = True, errors = [], warnings = [],
          stats = [(CharCount, Finite 11), (CharLimit, Finite 280),
                   (HashtagCount, Finite 1), (HashtagLimit, Finite 999)]\<rparr>"
    by (simp add: validatePost_def t g spread_def)
  have a': "validateTextContent ''twitter'' ''hello''
              = Inr (projr (validateTextContent ''twitter'' ''hello''))"
    and b': "validatePost ''twitter'' ''hello world'' [''tag'']
              = Inr (projr (validatePost ''twitter'' ''hello world'' [''tag'']))"
    by (simp_all add: a b)
  have e: "errors (projr (validateTextContent ''twitter'' ''hello''))
       = errors (projr (validatePost ''twitter'' ''hello world'' [''tag'']))"
    by (simp add: a b)
  have w: "warnings (projr (validateTextContent ''twitter'' ''hello''))
       \<noteq> warnings (projr (validatePost ''twitter'' ''hello world'' [''tag'']))"
    by (simp add: a b)
  from valid_iff_no_errors
    [where p = "''twitter''" and c = "''hello''"
       and r = "projr (validateTextContent ''twitter'' ''hello'')"
       and p' = "''twitter''" and c' = "''hello world''" and h' = "[''tag'']"
       and r' = "projr (validatePost ''twitter'' ''hello world'' [''tag''])",
     OF disjI1 [OF a'] disjI2 [OF disjI2 [OF disjI2 [OF disjI2 [OF b']]]]] e
  have "valid (projr (validateTextContent ''twitter'' ''hello''))
       = valid (projr (validatePost ''twitter'' ''hello world'' [''tag'']))
   \<and> (valid (projr (validateTextContent ''twitter'' ''hello''))
        \<longleftrightarrow> errors (projr (validateTextContent ''twitter'' ''hello'')) = [])"
    by blast
  with a b e w show ?thesis
    by blast
qed

section \<open>Unknown platforms\<close>

lemma validators_unknown:
  assumes "PLATFORM_SPECS_at (toLowerCase platform) = Undefined"
  shows "validateTextContent platform content = Inr (unknown_platform platform)"
    and "validateHashtags platform hashtags = Inr (unknown_platform platform)"
    and "validateImage platform width height fileSizeMB format = Inr (unknown_platform platform)"
    and "validateVideo platform width height durationSeconds fileSizeMB format =
           Inr (unknown_platform platform)"
  using assms
  by (simp_all add: validateTextContent_def validateHashtags_def validateImage_def
      validateVideo_def)

text \<open>
  On a key inherited from \<open>Object.prototype\<close> the guard \<open>!spec\<close> does not fire and the
  first read of a limit throws.
\<close>

lemma validators_throw_on_inherited_key:
  assumes "toLowerCase platform \<in> {''constructor'', ''__proto__''}"
  shows "validateTextContent platform content = Inl TypeError"
    and "validateHashtags platform hashtags = Inl TypeError"
    and "validateImage platform width height fileSizeMB format = Inl TypeError"
    and "validateVideo platform width height durationSeconds fileSizeMB format = Inl TypeError"
    and "validatePost platform content hashtags = Inl TypeError"
proof -
  have "PLATFORM_SPECS_at (toLowerCase platform) = Inherited (toLowerCase platform)"
    using assms
    by (auto simp: PLATFORM_SPECS_at_def PLATFORM_SPECS_def Object_prototype_keys_def)
  then show "validateTextContent platform content = Inl TypeError"
    and "validateHashtags platform hashtags = Inl TypeError"
    and "validateImage platform width height fileSizeMB format = Inl TypeError"
    and "validateVideo platform width height durationSeconds fileSizeMB format = Inl TypeError"
    and "validatePost platform content hashtags = Inl TypeError"
    by (simp_all add: validateTextContent_def validateHashtags_def validateImage_def
      validateVideo_def validatePost_def)
qed

text \<open>
  C3, as amended: for every platform string whose lower-case form is neither a registry key
  nor \<open>constructor\<close> or \<open>__proto__\<close>, and every other input, \<open>validateTextContent\<close>,
  \<open>validateHashtags\<close>, \<open>validateImage\<close> and \<open>validateVideo\<close> return, without throwing,
  exactly \<open>{valid: false, errors: ["Unknown platform: <name>"], warnings: [], stats: {}}\<close>;
  \<open>validatePost\<close> returns the same but with that error twice, once from each of the two
  checks it combines.
\<close>

theorem unknown_platform_rejected:
  assumes "toLowerCase p \<notin> set getSupportedPlatforms"
    and "toLowerCase p \<notin> {''constructor'', ''__proto__''}"
  shows "validateTextContent p c =
           Inr \<lparr>valid = False, errors = [''Unknown platform: '' @ p], warnings = [], stats = []\<rparr>
     \<and> validateHashtags p h =
           Inr \<lparr>valid = False, errors = [''Unknown platform: '' @ p], warnings = [], stats = []\<rparr>
     \<and> validateImage p w ht sz f =
           Inr \<lparr>valid = False, errors = [''Unknown platform: '' @ p], warnings = [], stats = []\<rparr>
     \<and> validateVideo p w ht d sz f =
           Inr \<lparr>valid = False, errors = [''Unknown platform: '' @ p], warnings = [], stats = []\<rparr>
     \<and> validatePost p c h =
           Inr \<lparr>valid = False,
                errors = [''Unknown platform: '' @ p, ''Unknown platform: '' @ p],
                warnings = [], stats = []\<rparr>"
proof -
  have "toLowerCase p \<notin> set Object_prototype_keys"
    using assms(2) by (simp add: lowercase_prototype_keys)
  with assms(1) have u: "PLATFORM_SPECS_at (toLowerCase p) = Undefined"
    by (rule PLATFORM_SPECS_at_Undefined)
  show ?thesis
    by (simp add: validators_unknown [OF u] validatePost_def unknown_platform_def spread_def)
qed

theorem unknown_platform_rejected_witness:
  "toLowerCase ''MySpace'' \<notin> set getSupportedPlatforms
   \<and> toLowerCase ''MySpace'' \<notin> {''constructor'', ''__proto__''}
   \<and> validateTextContent ''MySpace'' ''hello'' =
       Inr \<lparr>valid = False, errors = [''Unknown platform: MySpace''], warnings = [], stats = []\<rparr>
   \<and> validateHashtags ''MySpace'' [''#a''] =
       Inr \<lparr>valid = False, errors = [''Unknown platform: MySpace''], warnings = [], stats = []\<rparr>
   \<and> validateImage ''MySpace'' (Finite 1080) (Finite 1080) (Finite 1) ''JPG'' =
       Inr \<lparr>valid = False, errors = [''Unknown platform: MySpace''], warnings = [], stats = []\<rparr>
   \<and> validateVideo ''MySpace'' (Finite 1080) (Finite 1920) (Finite 30) (Finite 1) ''MP4'' =
       Inr \<lparr>valid = False, errors = [''Unknown platform: MySpace''], warnings = [], stats = []\<rparr>
   \<and> validatePost ''MySpace'' ''hello'' [''#a''] =
       Inr \<lparr>valid = False,
            errors = [''Unknown platform: MySpace'', ''Unknown platform: MySpace''],
            warnings = [], stats = []\<rparr>"
proof -
  have a: "toLowerCase ''MySpace'' \<notin> set getSupportedPlatforms"
    and b: "toLowerCase ''MySpace'' \<notin> {''constructor'', ''__proto__''}"
    by (simp_all add: getSupportedPlatforms_def PLATFORM_SPECS_def toLowerCase_def
        toLowerCase_char_def)
  show ?thesis
    using a b unknown_platform_rejected [OF a b] by simp
qed

text \<open>
  C3, as stated, at \<open>validatePost("myspace", "hello", [])\<close>: the platform is unknown and
  the result carries the error twice, so it is not the result with a single error.
\<close>

theorem validatePost_unknown_platform_two_errors:
  "toLowerCase ''myspace'' \<notin> set getSupportedPlatforms
   \<and> validatePost ''myspace'' ''hello'' [] =
       Inr \<lparr>valid = False,
            errors = [''Unknown platform: myspace'', ''Unknown platform: myspace''],
            warnings = [], stats = []\<rparr>
   \<and> validatePost ''myspace'' ''hello'' [] \<noteq>
       Inr \<lparr>valid = False, errors = [''Unknown platform: myspace''], warnings = [],
            stats = []\<rparr>"
  by (simp add: validatePost_def validateTextContent_def validateHashtags_def
      unknown_platform_def spread_def PLATFORM_SPECS_at_def PLATFORM_SPECS_def
      getSupportedPlatforms_def Object_prototype_keys_def toLowerCase_def toLowerCase_char_def)

text \<open>
  The validators return a result on every platform string but those two: the
  specification's checks on a registry key, the rejection otherwise.
\<close>

lemma validators_return:
  assumes "toLowerCase p \<notin> {''constructor'', ''__proto__''}"
  shows "\<exists>r. validateTextContent p c = Inr r"
    and "\<exists>r. validateHashtags p h = Inr r"
    and "\<exists>r. validateImage p w ht sz f = Inr r"
    and "\<exists>r. validateVideo p w ht d sz f = Inr r"
    and "\<exists>r. validatePost p c h = Inr r"
proof -
  have a: "(\<exists>r. validateTextContent p c = Inr r) \<and> (\<exists>r. validateHashtags p h = Inr r)
      \<and> (\<exists>r. validateImage p w ht sz f = Inr r) \<and> (\<exists>r. validateVideo p w ht d sz f = Inr r)"
  proof (cases "map_of PLATFORM_SPECS (toLowerCase p)")
    case None
    then have "toLowerCase p \<notin> set getSupportedPlatforms"
      by (simp add: getSupportedPlatforms_def map_of_eq_None_iff)
    moreover have "toLowerCase p \<notin> set Object_prototype_keys"
      using assms by (simp add: lowercase_prototype_keys)
    ultimately have "PLATFORM_SPECS_at (toLowerCase p) = Undefined"
      by (rule PLATFORM_SPECS_at_Undefined)
    then show ?thesis
      by (simp add: validators_unknown)
  next
    case (Some spec)
    then show ?thesis
      by (simp add: validateTextContent_supported validateHashtags_supported
          validateImage_supported validateVideo_supported)
  qed
  from a show "\<exists>r. validateTextContent p c = Inr r" and "\<exists>r. validateHashtags p h = Inr r"
    and "\<exists>r. validateImage p w ht sz f = Inr r" and "\<exists>r. validateVideo p w ht d sz f = Inr r"
    by simp_all
  from a show "\<exists>r. validatePost p c h = Inr r"
    by (auto simp: validatePost_def)
qed

section \<open>Numbers in messages at concrete inputs\<close>

lemma fl_2: "fl 2 = Finite 2"
  apply (simp only: fl_def Let_def)
  apply (simp add: ilog2_def bit_length.simps)
  apply (simp add: pow2_def round_half_even_def Let_def)
  done

lemma fl_3: "fl 3 = Finite 3"
  apply (simp only: fl_def Let_def)
  apply (simp add: ilog2_def bit_length.simps)
  apply (simp add: pow2_def round_half_even_def Let_def)
  done

lemma Number_toString_2: "Number_toString (Finite 2) = ''2''"
proof -
  have "digits_candidate 2 1 1 = Some 2"
    by (simp add: digits_candidate_def pow10_def Let_def fl_2 fl_3)
  then show ?thesis
    by (simp add: positive_toString_def ilog10_def dec_length.simps pow10_def
        show_nat.simps digit_char_def eval_nat_numeral Let_def)
qed

lemma short_video_warning_2:
  "short_video_warning (Finite 2) =
     ''Video is very short (2s). Consider making it at least 3-5 seconds for better viewer experience.''"
  by (simp add: short_video_warning_def Number_toString_2 del: Number_toString.simps)

lemma image_size_error_instagram:
  "image_size_error instagram (Finite (31 / 2)) = ''Image size exceeds Instagram limit (15.50MB / 15MB)''"
  by (simp add: image_size_error_def finite_toFixed_def show_nat.simps digit_char_def Let_def
      instagram_def)

end
